theory Spec2Isabelle
  imports Complex_Main
begin

section \<open>Python values, exceptions and numpy arrays\<close>

text \<open>
  The class \<open>WignerBlochFFTW1D\<close> of \<open>wigner_bloch_fftw_1d.py\<close> is Python 2 code (it uses
  the operator \<open><>\<close>). Python floats are modelled by the reals, with one
  feature of the float64 arithmetic kept: the exponential underflows to zero (see
  \<open>np_exp\<close>). Rounding error and overflow are outside this development.

  An exception is a value of the type \<open>error\<close>, named by its Python class and carrying
  its message; a computation that may raise returns \<open>error + 'a\<close>.
\<close>

datatype error =
    AttributeError string
  | TypeError string
  | ZeroDivisionError string
  | ValueError string

definition bindE :: "error + 'a \<Rightarrow> ('a \<Rightarrow> error + 'b) \<Rightarrow> error + 'b" where
  "bindE m f = (case m of Inl e \<Rightarrow> Inl e | Inr x \<Rightarrow> f x)"

text \<open>
  A numpy array of floats, flattened: the grid arrays of one propagator all range over the
  same phase-space lattice.
\<close>

type_synonym ndarray = "real list"

text \<open>
  The energy functions \<open>K\<close> and \<open>V\<close> are bound methods taking an array and returning an
  array. One that needs the time is called with two arguments; calling a method with the
  wrong number of arguments raises \<open>TypeError\<close>.
\<close>

datatype callable =
    Static "ndarray \<Rightarrow> ndarray"
  | Timed "ndarray \<Rightarrow> real \<Rightarrow> ndarray"

fun call1 :: "callable \<Rightarrow> ndarray \<Rightarrow> error + ndarray" where
  "call1 (Static f) a = Inr (f a)"
| "call1 (Timed g) a = Inl (TypeError ''takes exactly 3 arguments (2 given)'')"

fun call2 :: "callable \<Rightarrow> ndarray \<Rightarrow> real \<Rightarrow> error + ndarray" where
  "call2 (Static f) a tm = Inl (TypeError ''takes exactly 2 arguments (3 given)'')"
| "call2 (Timed g) a tm = Inr (g a tm)"

text \<open>The values of the keyword arguments: numbers and functions.\<close>

datatype pyval = Num real | Func callable

type_synonym kwargs = "string \<rightharpoonup> pyval"

section \<open>The temperature schedule (lines 22 to 45 of the constructor)\<close>

text \<open>
  Python 2's \<open>round\<close> returns a float and rounds halves away from zero; \<open>int\<close> truncates
  towards zero. Float division by zero raises \<open>ZeroDivisionError\<close>.
\<close>

definition py2_round :: "real \<Rightarrow> real" where
  "py2_round x = (if 0 \<le> x then of_int \<lfloor>x + 1 / 2\<rfloor> else of_int \<lceil>x - 1 / 2\<rceil>)"

definition py_int :: "real \<Rightarrow> int" where
  "py_int x = (if 0 \<le> x then \<lfloor>x\<rfloor> else \<lceil>x\<rceil>)"

definition fdiv :: "real \<Rightarrow> real \<Rightarrow> error + real" where
  "fdiv a b = (if b = 0 then Inl (ZeroDivisionError ''float division by zero'') else Inr (a / b))"

text \<open>
  Lines 35 to 42: from \<open>kT\<close> and the initial \<open>dbeta\<close> to the pair
  \<open>(dbeta, num_beta_steps)\<close>.
\<close>

definition resolve_steps :: "real \<Rightarrow> real \<Rightarrow> error + (real \<times> int)" where
  "resolve_steps temp dbeta0 =
     bindE (fdiv 1 (temp * dbeta0)) (\<lambda>steps.
       if py2_round steps \<noteq> steps then
         bindE (fdiv 1 (temp * py2_round steps)) (\<lambda>dbeta1.
           Inr (dbeta1, py_int (py2_round steps)))
       else Inr (dbeta0, py_int steps))"

text \<open>
  Lines 22 to 45. A missing \<open>kT\<close> is a \<open>KeyError\<close> turned into \<open>AttributeError\<close>. In the
  branch for \<open>kT \<le> 0\<close> the operand of \<open>raise\<close> is \<open>NotImplemented("...")\<close>: the constant
  \<open>NotImplemented\<close> is not an exception class and not callable, so evaluating the operand
  raises \<open>TypeError\<close>. In Python 2 a function compares greater than any number, and its
  product with a float raises \<open>TypeError\<close>.
\<close>

definition temperature_schedule :: "kwargs \<Rightarrow> error + (real \<times> real \<times> int)" where
  "temperature_schedule kw =
     (case kw ''kT'' of
        None \<Rightarrow> Inl (AttributeError ''Temperature (kT) was not specified'')
      | Some (Func f) \<Rightarrow> Inl (TypeError ''unsupported operand type(s) for *'')
      | Some (Num temp) \<Rightarrow>
          if temp > 0 then
            (case (case kw ''dbeta'' of None \<Rightarrow> Num (1 / 100) | Some v \<Rightarrow> v) of
               Func f \<Rightarrow> Inl (TypeError ''unsupported operand type(s) for *'')
             | Num dbeta0 \<Rightarrow>
                 bindE (resolve_steps temp dbeta0) (\<lambda>(dbeta1, n). Inr (temp, dbeta1, n)))
          else Inl (TypeError ''NotImplementedType object is not callable''))"

section \<open>numpy arithmetic on arrays\<close>

text \<open>
  A binary operation on two arrays is taken element by element when the shapes agree; an
  array with one element is stretched to the other's shape; any other pair of shapes
  raises \<open>ValueError\<close>. An in-place operation \<open>a *= b\<close> keeps the shape of \<open>a\<close>, so only
  \<open>b\<close> may be stretched. The minimum of an empty array raises \<open>ValueError\<close>.
\<close>

definition scale :: "real \<Rightarrow> ndarray \<Rightarrow> ndarray" where
  "scale c a = map (\<lambda>x. c * x) a"

definition broadcast :: "(real \<Rightarrow> real \<Rightarrow> real) \<Rightarrow> ndarray \<Rightarrow> ndarray \<Rightarrow> error + ndarray" where
  "broadcast f a b =
     (if length a = length b then Inr (map2 f a b)
      else if length a = 1 then Inr (map (f (hd a)) b)
      else if length b = 1 then Inr (map (\<lambda>x. f x (hd b)) a)
      else Inl (ValueError ''operands could not be broadcast together''))"

definition imul :: "ndarray \<Rightarrow> ndarray \<Rightarrow> error + ndarray" where
  "imul a b =
     (if length a = length b then Inr (map2 (*) a b)
      else if length b = 1 then Inr (map (\<lambda>x. x * hd b) a)
      else Inl (ValueError ''non-broadcastable output operand''))"

text \<open>
  \<open>np.exp\<close> on float64: the smallest positive float is \<open>1 / 2 ^ 1074\<close>, and a result
  below half of it is rounded to \<open>0.0\<close>. This happens for arguments below \<open>-1075 ln 2\<close>, about
  \<open>-745.13\<close>.
\<close>

definition np_exp :: "real \<Rightarrow> real" where
  "np_exp x = (if exp x < 1 / 2 ^ 1075 then 0 else exp x)"

fun amin :: "ndarray \<Rightarrow> error + real" where
  "amin [] = Inl (ValueError ''zero-size array to reduction operation minimum which has no identity'')"
| "amin (x # xs) = Inr (fold min xs x)"

section \<open>The attributes set by the parent class\<close>

text \<open>
  Modelled from the spec: the parent class \<open>WignerMoyalFTTW1D\<close> is not part of the source.
  Its constructor is a parameter of the model, a function from the keyword arguments to
  the attributes it leaves on the object (or to an exception). The record holds the
  attributes that \<open>WignerBlochFFTW1D\<close> reads or writes: the coordinate arrays \<open>X\<close>, \<open>P\<close> and
  their Fourier duals \<open>Theta\<close>, \<open>Lambda\<close>, the absorbing-boundary mask, the current time
  \<open>t\<close>, the energy functions, the Ehrenfest flag and the Wigner function. The field
  \<open>ehrenfest_evaluations\<close> counts how often the engine has computed the Ehrenfest
  expectation values. The parent constructor stores every keyword argument under its own
  name, so it leaves \<open>kT\<close> and \<open>dbeta\<close> as the subclass set them.
\<close>

record engine =
  X :: ndarray
  P :: ndarray
  Theta :: ndarray
  Lambda :: ndarray
  abs_boundary :: ndarray
  t :: real
  V :: callable
  K :: callable
  isEhrenfest :: bool
  wignerfunction :: ndarray
  ehrenfest_evaluations :: nat

text \<open>The object after construction: the attributes of the subclass (\<open>_expV\<close> and \<open>_expK\<close>
  are the fields \<open>expV\<close> and \<open>expK\<close>).\<close>

record bloch = engine +
  kT :: real
  dbeta :: real
  num_beta_steps :: int
  expV :: ndarray
  expK :: ndarray

section \<open>The evolution kernels (lines 65 to 100)\<close>

text \<open>The printed warnings, each with the time \<open>self.t\<close> it names.\<close>

datatype diagnostic = PotentialTimeDependent real | KineticTimeDependent real

fun is_TypeError :: "error \<Rightarrow> bool" where
  "is_TypeError (TypeError m) = True"
| "is_TypeError e = False"

text \<open>Line 66, the body of the \<open>try\<close>, and line 72, the handler's assignment.\<close>

definition potential_sum :: "'a engine_scheme \<Rightarrow> error + ndarray" where
  "potential_sum self =
     bindE (broadcast (-) (X self) (scale (1 / 2) (Theta self))) (\<lambda>a.
     bindE (call1 (V self) a) (\<lambda>va.
     bindE (broadcast (+) (X self) (scale (1 / 2) (Theta self))) (\<lambda>b.
     bindE (call1 (V self) b) (\<lambda>vb.
     broadcast (+) va vb))))"

definition potential_sum_at_t :: "'a engine_scheme \<Rightarrow> error + ndarray" where
  "potential_sum_at_t self =
     bindE (broadcast (-) (X self) (scale (1 / 2) (Theta self))) (\<lambda>a.
     bindE (call2 (V self) a (t self)) (\<lambda>va.
     bindE (broadcast (+) (X self) (scale (1 / 2) (Theta self))) (\<lambda>b.
     bindE (call2 (V self) b (t self)) (\<lambda>vb.
     broadcast (+) va vb))))"

text \<open>Lines 65 to 72: \<open>except TypeError\<close> catches only that class.\<close>

definition potential_energy :: "'a engine_scheme \<Rightarrow> error + (ndarray \<times> diagnostic list)" where
  "potential_energy self =
     (case potential_sum self of
        Inr S \<Rightarrow> Inr (S, [])
      | Inl e \<Rightarrow>
          if is_TypeError e then
            bindE (potential_sum_at_t self) (\<lambda>S. Inr (S, [PotentialTimeDependent (t self)]))
          else Inl e)"

text \<open>Lines 87 and 93.\<close>

definition kinetic_sum :: "'a engine_scheme \<Rightarrow> error + ndarray" where
  "kinetic_sum self =
     bindE (broadcast (+) (P self) (scale (1 / 2) (Lambda self))) (\<lambda>a.
     bindE (call1 (K self) a) (\<lambda>ka.
     bindE (broadcast (-) (P self) (scale (1 / 2) (Lambda self))) (\<lambda>b.
     bindE (call1 (K self) b) (\<lambda>kb.
     broadcast (+) ka kb))))"

definition kinetic_sum_at_t :: "'a engine_scheme \<Rightarrow> error + ndarray" where
  "kinetic_sum_at_t self =
     bindE (broadcast (+) (P self) (scale (1 / 2) (Lambda self))) (\<lambda>a.
     bindE (call2 (K self) a (t self)) (\<lambda>ka.
     bindE (broadcast (-) (P self) (scale (1 / 2) (Lambda self))) (\<lambda>b.
     bindE (call2 (K self) b (t self)) (\<lambda>kb.
     broadcast (+) ka kb))))"

definition kinetic_energy :: "'a engine_scheme \<Rightarrow> error + (ndarray \<times> diagnostic list)" where
  "kinetic_energy self =
     (case kinetic_sum self of
        Inr S \<Rightarrow> Inr (S, [])
      | Inl e \<Rightarrow>
          if is_TypeError e then
            bindE (kinetic_sum_at_t self) (\<lambda>S. Inr (S, [KineticTimeDependent (t self)]))
          else Inl e)"

text \<open>
  Lines 74 to 76 and 95 to 97: subtract the minimum in place, multiply in place by the
  coefficient, exponentiate in place.
\<close>

definition exp_kernel :: "real \<Rightarrow> ndarray \<Rightarrow> error + ndarray" where
  "exp_kernel c S = bindE (amin S) (\<lambda>m. Inr (map np_exp (scale c (map (\<lambda>s. s - m) S))))"

text \<open>The potential kernel before the absorbing boundary (lines 65 to 76), with the
  coefficient \<open>-self.dbeta * 0.5\<close>.\<close>

definition raw_expV :: "real \<Rightarrow> 'a engine_scheme \<Rightarrow> error + (ndarray \<times> diagnostic list)" where
  "raw_expV d self =
     bindE (potential_energy self) (\<lambda>(S, out).
     bindE (exp_kernel (- d * (1 / 2)) S) (\<lambda>k. Inr (k, out)))"

text \<open>Line 79 applies the absorbing boundary.\<close>

definition build_expV :: "real \<Rightarrow> 'a engine_scheme \<Rightarrow> error + (ndarray \<times> diagnostic list)" where
  "build_expV d self =
     bindE (raw_expV d self) (\<lambda>(k, out).
     bindE (imul k (abs_boundary self)) (\<lambda>k'. Inr (k', out)))"

text \<open>Lines 86 to 97, with the coefficient \<open>-self.dbeta\<close> and no mask.\<close>

definition build_expK :: "real \<Rightarrow> 'a engine_scheme \<Rightarrow> error + (ndarray \<times> diagnostic list)" where
  "build_expK d self =
     bindE (kinetic_energy self) (\<lambda>(S, out).
     bindE (exp_kernel (- d) S) (\<lambda>k. Inr (k, out)))"

section \<open>The constructor\<close>

text \<open>Line 48: \<open>kwargs.update(dbeta=self.dbeta, dt=self.dbeta)\<close>.\<close>

definition update_kwargs :: "kwargs \<Rightarrow> real \<Rightarrow> kwargs" where
  "update_kwargs kw d = kw(''dbeta'' \<mapsto> Num d, ''dt'' \<mapsto> Num d)"

text \<open>
  Lines 53 to 100, after the parent constructor has returned: clear the Ehrenfest flag,
  build the two kernels. The result is the object and the warnings printed. An exception
  leaves no object.
\<close>

definition finish_init ::
  "real \<Rightarrow> real \<Rightarrow> int \<Rightarrow> engine \<Rightarrow> error + (bloch \<times> diagnostic list)" where
  "finish_init temp d n eng =
     (let self = eng\<lparr>isEhrenfest := False\<rparr> in
      bindE (build_expV d self) (\<lambda>(ev, out1).
      bindE (build_expK d self) (\<lambda>(ek, out2).
      Inr (engine.extend self (bloch.fields temp d n ev ek), out1 @ out2))))"

text \<open>\<open>WignerBlochFFTW1D.__init__\<close>, with the parent constructor as the first argument.\<close>

definition init ::
  "(kwargs \<Rightarrow> error + engine) \<Rightarrow> kwargs \<Rightarrow> error + (bloch \<times> diagnostic list)" where
  "init parent kw =
     bindE (temperature_schedule kw) (\<lambda>(temp, d, n).
     bindE (parent (update_kwargs kw d)) (finish_init temp d n))"

text \<open>Lines 82 and 100: the accessors return the cached kernels at every time.\<close>

definition get_exp_v :: "bloch \<Rightarrow> real \<Rightarrow> ndarray" where
  "get_exp_v self tm = expV self"

definition get_exp_k :: "bloch \<Rightarrow> real \<Rightarrow> ndarray" where
  "get_exp_k self tm = expK self"

section \<open>The Gibbs state (lines 102 to 109)\<close>

text \<open>
  Modelled from the spec: \<open>set_wignerfunction\<close> belongs to the parent class, which is not
  part of the source. It sets the current distribution; given a generator function of the
  coordinates it stores the function's value on the coordinate arrays, and it replaces
  the internal state.
\<close>

definition set_wignerfunction ::
  "(ndarray \<Rightarrow> ndarray \<Rightarrow> error + ndarray) \<Rightarrow> bloch \<Rightarrow> error + bloch" where
  "set_wignerfunction gen self =
     bindE (gen (X self) (P self)) (\<lambda>w. Inr (self\<lparr>wignerfunction := w\<rparr>))"

text \<open>
  Modelled from the spec: one step of the parent's propagation loop, which is not part of
  the source. It multiplies by the potential kernel, transforms to the momentum
  representation, multiplies by the kinetic kernel, transforms back and multiplies by the
  potential kernel again, reading the kernels through the accessors \<open>get_exp_v\<close> and
  \<open>get_exp_k\<close>; the two Fourier transforms are parameters. The Ehrenfest expectation
  values are computed in a step only when the flag is set.
\<close>

definition single_step ::
  "(ndarray \<Rightarrow> ndarray) \<Rightarrow> (ndarray \<Rightarrow> ndarray) \<Rightarrow> bloch \<Rightarrow> bloch" where
  "single_step to_p to_x self =
     (let w1 = map2 (*) (wignerfunction self) (get_exp_v self (t self));
          w2 = map2 (*) (to_p w1) (get_exp_k self (t self));
          w3 = map2 (*) (to_x w2) (get_exp_v self (t self));
          s = self\<lparr>wignerfunction := w3\<rparr>
      in if isEhrenfest s
         then s\<lparr>ehrenfest_evaluations := Suc (ehrenfest_evaluations s)\<rparr>
         else s)"

text \<open>
  Modelled from the spec: \<open>propagate\<close> of the parent class advances the distribution by
  the given number of steps, one after the other, and returns the final distribution,
  which stays the object's state.
\<close>

fun propagate ::
  "(ndarray \<Rightarrow> ndarray) \<Rightarrow> (ndarray \<Rightarrow> ndarray) \<Rightarrow> nat \<Rightarrow> bloch \<Rightarrow> bloch" where
  "propagate to_p to_x 0 self = self"
| "propagate to_p to_x (Suc n) self = propagate to_p to_x n (single_step to_p to_x self)"

text \<open>Line 108: the initial state \<open>lambda _, x, p: 0*x + 0*p + 1.\<close>\<close>

definition flat_state :: "ndarray \<Rightarrow> ndarray \<Rightarrow> error + ndarray" where
  "flat_state x p =
     bindE (broadcast (+) (scale 0 x) (scale 0 p)) (\<lambda>s. Inr (map (\<lambda>v. v + 1) s))"

text \<open>
  \<open>get_gibbs_state\<close>: the returned array and the object afterwards. A Python loop over a
  negative count does not run, hence \<open>nat\<close>.
\<close>

definition get_gibbs_state ::
  "(ndarray \<Rightarrow> ndarray) \<Rightarrow> (ndarray \<Rightarrow> ndarray) \<Rightarrow> bloch \<Rightarrow> error + (ndarray \<times> bloch)" where
  "get_gibbs_state to_p to_x self =
     bindE (set_wignerfunction flat_state self) (\<lambda>s1.
       let s2 = propagate to_p to_x (nat (num_beta_steps s1)) s1
       in Inr (wignerfunction s2, s2))"

section \<open>The kernels as the specification words them\<close>

text \<open>
  The specification gives each kernel by a closed formula over arrays of one shape. An
  energy function that needs the time is read at the object's current time.
\<close>

fun energy_at :: "callable \<Rightarrow> real \<Rightarrow> ndarray \<Rightarrow> ndarray" where
  "energy_at (Static f) tm = f"
| "energy_at (Timed g) tm = (\<lambda>a. g a tm)"

text \<open>\<open>S = V(X - Theta/2) + V(X + Theta/2)\<close> and \<open>S = K(P + Lambda/2) + K(P - Lambda/2)\<close>.\<close>

definition spec_potential_sum :: "(ndarray \<Rightarrow> ndarray) \<Rightarrow> ndarray \<Rightarrow> ndarray \<Rightarrow> ndarray" where
  "spec_potential_sum v xs thetas =
     map2 (+) (v (map2 (\<lambda>x th. x - 1 / 2 * th) xs thetas))
              (v (map2 (\<lambda>x th. x + 1 / 2 * th) xs thetas))"

definition spec_kinetic_sum :: "(ndarray \<Rightarrow> ndarray) \<Rightarrow> ndarray \<Rightarrow> ndarray \<Rightarrow> ndarray" where
  "spec_kinetic_sum k ps lambdas =
     map2 (+) (k (map2 (\<lambda>p la. p + 1 / 2 * la) ps lambdas))
              (k (map2 (\<lambda>p la. p - 1 / 2 * la) ps lambdas))"

text \<open>\<open>exp(-0.5 dbeta (S - min S))\<close> times the mask, and \<open>exp(-dbeta (S - min S))\<close>, with
  the exponential of the arrays, \<open>np_exp\<close>.\<close>

definition spec_potential_kernel ::
  "real \<Rightarrow> (ndarray \<Rightarrow> ndarray) \<Rightarrow> ndarray \<Rightarrow> ndarray \<Rightarrow> ndarray \<Rightarrow> ndarray" where
  "spec_potential_kernel d v xs thetas boundary =
     map2 (*)
       (map (\<lambda>s. np_exp (- (1 / 2) * d * (s - Min (set (spec_potential_sum v xs thetas)))))
          (spec_potential_sum v xs thetas))
       boundary"

definition spec_kinetic_kernel ::
  "real \<Rightarrow> (ndarray \<Rightarrow> ndarray) \<Rightarrow> ndarray \<Rightarrow> ndarray \<Rightarrow> ndarray" where
  "spec_kinetic_kernel d k ps lambdas =
     map (\<lambda>s. np_exp (- d * (s - Min (set (spec_kinetic_sum k ps lambdas)))))
       (spec_kinetic_sum k ps lambdas)"

text \<open>
  Modelled from the spec: the invariant of the phase-space grid, which the parent class
  builds. The coordinate arrays, their duals and the mask have one common shape, and the
  grid has a point. An energy function returns an array of the shape of its argument.
\<close>

definition grid_shape :: "'a engine_scheme \<Rightarrow> bool" where
  "grid_shape self \<longleftrightarrow>
     X self \<noteq> [] \<and> length (P self) = length (X self) \<and>
     length (Theta self) = length (X self) \<and> length (Lambda self) = length (X self) \<and>
     length (abs_boundary self) = length (X self)"

definition shape_preserving :: "(ndarray \<Rightarrow> ndarray) \<Rightarrow> bool" where
  "shape_preserving f \<longleftrightarrow> (\<forall>a. length (f a) = length a)"

text \<open>The warning printed for an energy function, if any.\<close>

fun time_warning :: "(real \<Rightarrow> diagnostic) \<Rightarrow> callable \<Rightarrow> real \<Rightarrow> diagnostic list" where
  "time_warning w (Static f) tm = []"
| "time_warning w (Timed g) tm = [w tm]"

text \<open>The two cached kernels of a construction.\<close>

definition constructed_kernels ::
  "(kwargs \<Rightarrow> error + engine) \<Rightarrow> kwargs \<Rightarrow> error + (ndarray \<times> ndarray)" where
  "constructed_kernels parent kw =
     bindE (init parent kw) (\<lambda>(self, out). Inr (expV self, expK self))"

text \<open>The inputs that the kernels are built from, apart from the temperature schedule.\<close>

definition same_kernel_inputs :: "engine \<Rightarrow> engine \<Rightarrow> bool" where
  "same_kernel_inputs e1 e2 \<longleftrightarrow>
     X e1 = X e2 \<and> P e1 = P e2 \<and> Theta e1 = Theta e2 \<and> Lambda e1 = Lambda e2 \<and>
     V e1 = V e2 \<and> K e1 = K e2 \<and> abs_boundary e1 = abs_boundary e2 \<and> t e1 = t e2"

section \<open>Concrete inputs\<close>

text \<open>
  A grid of two points with a harmonic oscillator, \<open>V(x) = x\<^sup>2\<close> and \<open>K(p) = p\<^sup>2 / 2\<close>, as a
  parent constructor would leave it, with the Ehrenfest flag set.
\<close>

definition oscillator :: engine where
  "oscillator =
     \<lparr>X = [0, 1], P = [0, 1], Theta = [0, 2], Lambda = [0, 2], abs_boundary = [1, 1 / 2],
      t = 0, V = Static (map (\<lambda>x. x * x)), K = Static (map (\<lambda>p. p * p / 2)),
      isEhrenfest = True, wignerfunction = [5, 7], ehrenfest_evaluations = 0\<rparr>"

definition oscillator_parent :: "kwargs \<Rightarrow> error + engine" where
  "oscillator_parent kw = Inr oscillator"

text \<open>The same oscillator with another Wigner function, flag and count.\<close>

definition oscillator_later :: engine where
  "oscillator_later =
     oscillator\<lparr>isEhrenfest := False, wignerfunction := [1, 1], ehrenfest_evaluations := 3\<rparr>"

definition oscillator_later_parent :: "kwargs \<Rightarrow> error + engine" where
  "oscillator_later_parent kw = Inr oscillator_later"

text \<open>The object that the constructor builds from the oscillator at \<open>kT = 1\<close> and
  \<open>dbeta = 1/2\<close>: two steps.\<close>

definition gibbs_object :: bloch where
  "gibbs_object =
     engine.extend (oscillator\<lparr>isEhrenfest := False\<rparr>)
       (bloch.fields 1 (1 / 2) 2 [1, exp (- 1) / 2] [1, exp (- 1)])"

text \<open>The oscillator on a wider grid, whose far point has the shifted energy sum 40000.\<close>

definition wide_oscillator :: engine where
  "wide_oscillator = oscillator\<lparr>X := [0, 100], Theta := [0, 200]\<rparr>"

text \<open>The same grid with energies that grow with the time, at the time \<open>tm\<close>.\<close>

definition driven :: "real \<Rightarrow> engine" where
  "driven tm =
     \<lparr>X = [0, 1], P = [0, 1], Theta = [0, 2], Lambda = [0, 2], abs_boundary = [1, 1 / 2],
      t = tm, V = Timed (\<lambda>a s. map (\<lambda>x. s * (x * x)) a),
      K = Timed (\<lambda>a s. map (\<lambda>p. s * (p * p) / 2) a),
      isEhrenfest = True, wignerfunction = [5, 7], ehrenfest_evaluations = 0\<rparr>"

definition driven_parent :: "real \<Rightarrow> kwargs \<Rightarrow> error + engine" where
  "driven_parent tm kw = Inr (driven tm)"

text \<open>Keyword arguments: a temperature with and without a step, and no temperature.\<close>

definition kw_half :: kwargs where
  "kw_half = [''kT'' \<mapsto> Num 1, ''dbeta'' \<mapsto> Num (1 / 2)]"

definition kw_half_dt :: kwargs where
  "kw_half_dt = [''kT'' \<mapsto> Num 1, ''dbeta'' \<mapsto> Num (1 / 2), ''dt'' \<mapsto> Num 5]"

definition kw_three_tenths :: kwargs where
  "kw_three_tenths = [''kT'' \<mapsto> Num 1, ''dbeta'' \<mapsto> Num (3 / 10), ''dt'' \<mapsto> Num 5, ''omega'' \<mapsto> Num 2]"

definition kw_hot :: kwargs where
  "kw_hot = [''kT'' \<mapsto> Num 300]"

definition kw_ground :: kwargs where
  "kw_ground = [''kT'' \<mapsto> Num 0]"

definition kw_no_temperature :: kwargs where
  "kw_no_temperature = [''dbeta'' \<mapsto> Num (1 / 100), ''dt'' \<mapsto> Num (1 / 100)]"

section \<open>The temperature schedule\<close>

lemma py2_round_nonneg: "0 \<le> x \<Longrightarrow> py2_round x = of_int \<lfloor>x + 1 / 2\<rfloor>"
  by (simp add: py2_round_def)

lemma py_int_of_int: "py_int (of_int k) = k"
  by (simp add: py_int_def)

text \<open>
  When the product of \<open>kT\<close> and the initial \<open>dbeta\<close> is at most 2, the schedule resolves
  to a positive step count \<open>n\<close>, the rounded value of \<open>1 / (kT dbeta)\<close>, and to the step
  \<open>1 / (kT n)\<close>, so that \<open>n dbeta kT = 1\<close>.
\<close>

lemma resolve_steps_exact:
  assumes "0 < temp" "0 < d0" "temp * d0 \<le> 2"
  shows "\<exists>d n. resolve_steps temp d0 = Inr (d, n) \<and> 1 \<le> n \<and> of_int n * d * temp = 1
     \<and> of_int n = py2_round (1 / (temp * d0))
     \<and> d = 1 / (temp * py2_round (1 / (temp * d0)))"
proof -
  define s where "s = 1 / (temp * d0)"
  define k where "k = \<lfloor>s + 1 / 2\<rfloor>"
  have pos: "0 < temp * d0" using assms by simp
  have half: "1 / 2 \<le> s" using assms pos by (simp add: s_def field_simps)
  have r: "py2_round s = of_int k" using half by (simp add: py2_round_nonneg k_def)
  have k1: "1 \<le> k" using half by (simp add: k_def le_floor_iff)
  have kr: "(0::real) < of_int k" using k1 by simp
  have div1: "fdiv 1 (temp * d0) = Inr s" using assms by (simp add: fdiv_def s_def)
  have e4: "of_int k = py2_round (1 / (temp * d0))" using r by (simp add: s_def)
  show ?thesis
  proof (cases "py2_round s = s")
    case True
    then have sk: "s = of_int k" using r by simp
    have res: "resolve_steps temp d0 = Inr (d0, k)"
      using True div1 sk by (simp add: resolve_steps_def bindE_def py_int_of_int)
    have e1: "of_int k * d0 * temp = 1" using sk[symmetric] assms by (simp add: s_def)
    have e2: "d0 = 1 / (temp * of_int k)" using sk[symmetric] assms by (simp add: s_def)
    have e3: "d0 = 1 / (temp * py2_round (1 / (temp * d0)))"
      using e2 r by (simp add: s_def)
    from res k1 e1 e4 e3 show ?thesis by blast
  next
    case False
    have nz: "temp * of_int k \<noteq> 0" using assms kr by simp
    have res: "resolve_steps temp d0 = Inr (1 / (temp * of_int k), k)"
      using False div1 r nz by (simp add: resolve_steps_def bindE_def fdiv_def py_int_of_int)
    have e1: "of_int k * (1 / (temp * of_int k)) * temp = 1" using nz by simp
    have e3: "1 / (temp * of_int k) = 1 / (temp * py2_round (1 / (temp * d0)))"
      using r by (simp add: s_def)
    from res k1 e1 e4 e3 show ?thesis by blast
  qed
qed

text \<open>
  When the product exceeds 2, the step count rounds to zero and line 40 divides by zero.
\<close>

lemma resolve_steps_zero:
  assumes "0 < temp" "0 < d0" "2 < temp * d0"
  shows "resolve_steps temp d0 = Inl (ZeroDivisionError ''float division by zero'')"
proof -
  define s where "s = 1 / (temp * d0)"
  have pos: "0 < temp * d0" using assms by simp
  have s0: "0 < s" using pos by (simp add: s_def)
  have half: "s < 1 / 2" using assms pos by (simp add: s_def field_simps)
  have fl: "\<lfloor>s + 1 / 2\<rfloor> = 0" using s0 half by (simp add: floor_eq_iff)
  have r: "py2_round s = 0" using s0 fl by (simp add: py2_round_def)
  have div1: "fdiv 1 (temp * d0) = Inr s" using assms by (simp add: fdiv_def s_def)
  show ?thesis using div1 r s0 by (simp add: resolve_steps_def bindE_def fdiv_def)
qed

lemma resolve_steps_positive:
  assumes "0 < temp" "0 < d0" "resolve_steps temp d0 = Inr (d, n)"
  shows "0 < d \<and> 1 \<le> n \<and> of_int n * d * temp = 1"
proof (cases "temp * d0 \<le> 2")
  case True
  obtain d' n' where r: "resolve_steps temp d0 = Inr (d', n')" "1 \<le> n'"
      "of_int n' * d' * temp = 1"
    using resolve_steps_exact[OF assms(1,2) True] by blast
  have eq: "d' = d" "n' = n" using r(1) assms(3) by simp_all
  have n0: "(0::real) < of_int n" using r(2) eq by simp
  have "0 < of_int n * d * temp" using r(3) eq by simp
  then have "0 < d" using n0 assms(1) by (simp add: zero_less_mult_iff)
  then show ?thesis using r eq by simp
next
  case False
  then have "resolve_steps temp d0 = Inl (ZeroDivisionError ''float division by zero'')"
    using resolve_steps_zero[OF assms(1,2)] by simp
  then show ?thesis using assms(3) by simp
qed

text \<open>
  Claim C1, at an input where it fails: for \<open>kT = 300\<close> and no \<open>dbeta\<close> the default
  \<open>dbeta = 0.01\<close> gives \<open>1 / (kT dbeta) = 1/3\<close>, which rounds to 0; the constructor
  then raises \<open>ZeroDivisionError\<close> at line 40 instead of resolving a step count of at
  least 1, whatever the parent constructor is.
\<close>

theorem init_kT_300_divides_by_zero:
  "init parent kw_hot = Inl (ZeroDivisionError ''float division by zero'')"
  by (simp add: init_def kw_hot_def temperature_schedule_def resolve_steps_def fdiv_def
      bindE_def py2_round_def)

section \<open>Errors of the constructor\<close>

lemma init_nonpositive_kT:
  assumes "kw ''kT'' = Some (Num temp)" "temp \<le> 0"
  shows "init parent kw = Inl (TypeError ''NotImplementedType object is not callable'')"
  using assms by (simp add: init_def temperature_schedule_def bindE_def)

text \<open>
  Claim C5, at an input where it fails: for \<open>kT = 0\<close> the constructor builds no kernel and
  falls back to nothing, but the exception that leaves it is the \<open>TypeError\<close> of calling
  \<open>NotImplemented\<close>, not an error that reports the unsupported ground state.
\<close>

theorem init_kT_zero_raises_TypeError:
  "init parent kw_ground = Inl (TypeError ''NotImplementedType object is not callable'')"
  by (simp add: init_nonpositive_kT[of _ 0] kw_ground_def)

text \<open>
  Claim C6: without \<open>kT\<close> among the keyword arguments the constructor raises the
  \<open>AttributeError\<close> "Temperature (kT) was not specified" (the specification's
  configuration error). This holds for every parent constructor and every other keyword
  argument: the parent is not reached and no kernel is built.
\<close>

theorem init_without_kT:
  assumes "kw ''kT'' = None"
  shows "init parent kw = Inl (AttributeError ''Temperature (kT) was not specified'')"
  using assms by (simp add: init_def temperature_schedule_def bindE_def)

theorem init_without_kT_witness:
  "kw_no_temperature ''kT'' = None \<and>
   init oscillator_parent kw_no_temperature =
     Inl (AttributeError ''Temperature (kT) was not specified'')"
proof -
  have h: "kw_no_temperature ''kT'' = None" by (simp add: kw_no_temperature_def)
  show ?thesis using h init_without_kT[of kw_no_temperature oscillator_parent] by simp
qed

section \<open>The kernels\<close>

text \<open>The exponential of the arrays: exact from \<open>-1\<close> upwards, zero from \<open>-1075\<close> downwards.\<close>

lemma tiny_le: "(1::real) / 2 ^ 1075 \<le> 1 / 4"
proof -
  have "(2::real) ^ 2 \<le> 2 ^ 1075" by (rule power_increasing) simp_all
  then show ?thesis by (simp add: field_simps)
qed

lemma np_exp_eq:
  assumes "- 1 \<le> x"
  shows "np_exp x = exp x"
proof -
  have "exp (1::real) \<le> 3" by (rule exp_le)
  then have "1 / 3 \<le> exp (- 1 :: real)" by (simp add: exp_minus field_simps)
  also have "exp (- 1 :: real) \<le> exp x" using assms by simp
  finally have "1 / 4 < exp x" by simp
  then have "\<not> exp x < 1 / 2 ^ 1075" using tiny_le by linarith
  then show ?thesis by (simp only: np_exp_def if_False)
qed

lemma np_exp_zero: "np_exp 0 = 1"
  using np_exp_eq[of 0] by simp

lemma np_exp_underflow:
  assumes "x \<le> - 1075"
  shows "np_exp x = 0"
proof -
  have two: "(2::real) < exp 1" using exp_1_gt_powr[of 1] by simp
  have "exp x \<le> exp (- 1075 :: real)" using assms by simp
  also have "exp (- 1075 :: real) = 1 / exp 1 ^ 1075"
    using exp_of_nat_mult[of 1075 "1::real"] by (simp add: exp_minus field_simps)
  also have "\<dots> < 1 / 2 ^ 1075"
  proof -
    have "(2::real) ^ 1075 < exp 1 ^ 1075" using two by (intro power_strict_mono) simp_all
    then show ?thesis by (simp only: frac_less2 divide_strict_left_mono zero_less_power
          zero_less_numeral zero_less_one mult_pos_pos exp_gt_zero)
  qed
  finally show ?thesis by (simp only: np_exp_def if_True)
qed

lemma np_exp_range:
  assumes "x \<le> 0"
  shows "0 \<le> np_exp x \<and> np_exp x \<le> 1"
  using assms by (simp add: np_exp_def)

lemma np_exp_pos_iff: "0 < np_exp x \<longleftrightarrow> \<not> exp x < 1 / 2 ^ 1075"
  by (simp only: np_exp_def split: if_split) simp

lemma amin_eq:
  assumes "S \<noteq> []"
  shows "amin S = Inr (Min (set S))"
proof (cases S)
  case Nil
  then show ?thesis using assms by simp
next
  case (Cons a list)
  show ?thesis using Min.set_eq_fold[of a list] by (simp add: Cons)
qed

lemma exp_kernel_eq:
  "S \<noteq> [] \<Longrightarrow> exp_kernel c S = Inr (map (\<lambda>s. np_exp (c * (s - Min (set S)))) S)"
  by (simp add: exp_kernel_def amin_eq bindE_def scale_def)

lemma broadcast_same: "length a = length b \<Longrightarrow> broadcast f a b = Inr (map2 f a b)"
  by (simp add: broadcast_def)

lemma imul_same: "length a = length b \<Longrightarrow> imul a b = Inr (map2 (*) a b)"
  by (simp add: imul_def)

lemma map2_scale: "map2 f xs (scale c ys) = map2 (\<lambda>x y. f x (c * y)) xs ys"
  by (auto simp: scale_def zip_map2)

lemma length_scale: "length (scale c a) = length a"
  by (simp add: scale_def)

lemma shifted_args:
  "map2 (-) xs (scale (1 / 2) ys) = map2 (\<lambda>x th. x - 1 / 2 * th) xs ys"
  "map2 (+) xs (scale (1 / 2) ys) = map2 (\<lambda>x th. x + 1 / 2 * th) xs ys"
  by (simp_all add: map2_scale)

lemma length_spec_potential_sum:
  "shape_preserving v \<Longrightarrow> length thetas = length xs \<Longrightarrow>
   length (spec_potential_sum v xs thetas) = length xs"
  by (simp add: spec_potential_sum_def shape_preserving_def)

lemma length_spec_kinetic_sum:
  "shape_preserving k \<Longrightarrow> length lambdas = length ps \<Longrightarrow>
   length (spec_kinetic_sum k ps lambdas) = length ps"
  by (simp add: spec_kinetic_sum_def shape_preserving_def)

text \<open>Lines 65 to 72 on arrays of one shape: the sum and the warning.\<close>

lemma potential_energy_eq:
  assumes len: "length (Theta self) = length (X self)"
    and shape: "shape_preserving (energy_at (V self) (t self))"
  shows "potential_energy self =
     Inr (spec_potential_sum (energy_at (V self) (t self)) (X self) (Theta self),
          time_warning PotentialTimeDependent (V self) (t self))"
proof (cases "V self")
  case (Static f)
  have sh: "\<And>a. length (f a) = length a"
    using shape Static by (simp add: shape_preserving_def)
  have "potential_sum self = Inr (spec_potential_sum f (X self) (Theta self))"
    using len by (simp add: potential_sum_def Static broadcast_same bindE_def length_scale sh
        spec_potential_sum_def shifted_args)
  then show ?thesis by (simp add: potential_energy_def Static)
next
  case (Timed g)
  have sh: "\<And>a. length (g a (t self)) = length a"
    using shape Timed by (simp add: shape_preserving_def)
  have e1: "potential_sum self = Inl (TypeError ''takes exactly 3 arguments (2 given)'')"
    using len by (simp add: potential_sum_def Timed broadcast_same bindE_def length_scale)
  have e2: "potential_sum_at_t self =
      Inr (spec_potential_sum (\<lambda>a. g a (t self)) (X self) (Theta self))"
    using len by (simp add: potential_sum_at_t_def Timed broadcast_same bindE_def
        length_scale sh spec_potential_sum_def shifted_args)
  show ?thesis by (simp add: potential_energy_def Timed e1 e2 bindE_def)
qed

lemma kinetic_energy_eq:
  assumes len: "length (Lambda self) = length (P self)"
    and shape: "shape_preserving (energy_at (K self) (t self))"
  shows "kinetic_energy self =
     Inr (spec_kinetic_sum (energy_at (K self) (t self)) (P self) (Lambda self),
          time_warning KineticTimeDependent (K self) (t self))"
proof (cases "K self")
  case (Static f)
  have sh: "\<And>a. length (f a) = length a"
    using shape Static by (simp add: shape_preserving_def)
  have "kinetic_sum self = Inr (spec_kinetic_sum f (P self) (Lambda self))"
    using len by (simp add: kinetic_sum_def Static broadcast_same bindE_def length_scale sh
        spec_kinetic_sum_def shifted_args)
  then show ?thesis by (simp add: kinetic_energy_def Static)
next
  case (Timed g)
  have sh: "\<And>a. length (g a (t self)) = length a"
    using shape Timed by (simp add: shape_preserving_def)
  have e1: "kinetic_sum self = Inl (TypeError ''takes exactly 3 arguments (2 given)'')"
    using len by (simp add: kinetic_sum_def Timed broadcast_same bindE_def length_scale)
  have e2: "kinetic_sum_at_t self =
      Inr (spec_kinetic_sum (\<lambda>a. g a (t self)) (P self) (Lambda self))"
    using len by (simp add: kinetic_sum_at_t_def Timed broadcast_same bindE_def
        length_scale sh spec_kinetic_sum_def shifted_args)
  show ?thesis by (simp add: kinetic_energy_def Timed e1 e2 bindE_def)
qed

text \<open>The raw potential kernel, the masked one and the kinetic kernel on such arrays.\<close>

lemma raw_expV_eq:
  assumes "X self \<noteq> []" "length (Theta self) = length (X self)"
    and "shape_preserving (energy_at (V self) (t self))"
  shows "raw_expV d self =
     Inr (map (\<lambda>s. np_exp (- d * (1 / 2) * (s - Min (set (spec_potential_sum (energy_at (V self) (t self)) (X self) (Theta self))))))
            (spec_potential_sum (energy_at (V self) (t self)) (X self) (Theta self)),
          time_warning PotentialTimeDependent (V self) (t self))"
proof -
  have "length (spec_potential_sum (energy_at (V self) (t self)) (X self) (Theta self)) = length (X self)"
    using assms by (simp add: length_spec_potential_sum)
  then have ne: "spec_potential_sum (energy_at (V self) (t self)) (X self) (Theta self) \<noteq> []"
    using assms(1) by auto
  show ?thesis
    using assms(2,3) by (simp add: raw_expV_def potential_energy_eq bindE_def exp_kernel_eq[OF ne])
qed

lemma build_expV_eq:
  assumes "X self \<noteq> []" "length (Theta self) = length (X self)"
    and "length (abs_boundary self) = length (X self)"
    and "shape_preserving (energy_at (V self) (t self))"
  shows "build_expV d self =
     Inr (spec_potential_kernel d (energy_at (V self) (t self)) (X self) (Theta self)
            (abs_boundary self),
          time_warning PotentialTimeDependent (V self) (t self))"
proof -
  have len: "length (spec_potential_sum (energy_at (V self) (t self)) (X self) (Theta self)) = length (abs_boundary self)"
    using assms by (simp add: length_spec_potential_sum)
  show ?thesis
    using len by (simp add: build_expV_def raw_expV_eq[OF assms(1,2,4)] bindE_def imul_same
        spec_potential_kernel_def)
qed

lemma build_expK_eq:
  assumes "P self \<noteq> []" "length (Lambda self) = length (P self)"
    and "shape_preserving (energy_at (K self) (t self))"
  shows "build_expK d self =
     Inr (spec_kinetic_kernel d (energy_at (K self) (t self)) (P self) (Lambda self),
          time_warning KineticTimeDependent (K self) (t self))"
proof -
  have "length (spec_kinetic_sum (energy_at (K self) (t self)) (P self) (Lambda self)) = length (P self)"
    using assms by (simp add: length_spec_kinetic_sum)
  then have ne: "spec_kinetic_sum (energy_at (K self) (t self)) (P self) (Lambda self) \<noteq> []"
    using assms(1) by auto
  show ?thesis
    using assms(2,3) by (simp add: build_expK_def kinetic_energy_eq bindE_def exp_kernel_eq[OF ne]
        spec_kinetic_kernel_def)
qed

text \<open>The constructor after the parent constructor has returned such a grid.\<close>

lemma finish_init_eq:
  assumes "grid_shape eng"
    and "shape_preserving (energy_at (V eng) (t eng))"
    and "shape_preserving (energy_at (K eng) (t eng))"
  shows "finish_init temp d n eng =
     Inr (engine.extend (eng\<lparr>isEhrenfest := False\<rparr>)
            (bloch.fields temp d n
               (spec_potential_kernel d (energy_at (V eng) (t eng)) (X eng) (Theta eng)
                  (abs_boundary eng))
               (spec_kinetic_kernel d (energy_at (K eng) (t eng)) (P eng) (Lambda eng))),
          time_warning PotentialTimeDependent (V eng) (t eng) @
          time_warning KineticTimeDependent (K eng) (t eng))"
proof -
  let ?self = "eng\<lparr>isEhrenfest := False\<rparr>"
  have g: "X ?self \<noteq> []" "length (Theta ?self) = length (X ?self)"
    "length (abs_boundary ?self) = length (X ?self)"
    "P ?self \<noteq> []" "length (Lambda ?self) = length (P ?self)"
    using assms(1) by (auto simp: grid_shape_def)
  have v: "shape_preserving (energy_at (V ?self) (t ?self))" using assms(2) by simp
  have k: "shape_preserving (energy_at (K ?self) (t ?self))" using assms(3) by simp
  show ?thesis
    by (simp add: finish_init_def build_expV_eq[OF g(1,2,3) v] build_expK_eq[OF g(4,5) k]
        bindE_def)
qed

lemma init_eq:
  assumes "temperature_schedule kw = Inr (temp, d, n)"
    and "parent (update_kwargs kw d) = Inr eng"
  shows "init parent kw = finish_init temp d n eng"
  using assms by (simp add: init_def bindE_def)

section \<open>Concrete constructions\<close>

lemma schedule_kw_half: "temperature_schedule kw_half = Inr (1, 1 / 2, 2)"
  by (simp add: kw_half_def temperature_schedule_def resolve_steps_def fdiv_def bindE_def
      py2_round_def py_int_def)

lemma schedule_kw_half_dt: "temperature_schedule kw_half_dt = Inr (1, 1 / 2, 2)"
  by (simp add: kw_half_dt_def temperature_schedule_def resolve_steps_def fdiv_def bindE_def
      py2_round_def py_int_def)

lemma grid_shape_oscillator: "grid_shape oscillator"
  by (simp add: grid_shape_def oscillator_def)

lemma grid_shape_driven: "grid_shape (driven tm)"
  by (simp add: grid_shape_def driven_def)

lemma shape_preserving_map: "shape_preserving (map f)"
  by (simp add: shape_preserving_def)

lemma oscillator_energies:
  "energy_at (V oscillator) (t oscillator) = map (\<lambda>x. x * x)"
  "energy_at (K oscillator) (t oscillator) = map (\<lambda>p. p * p / 2)"
  by (simp_all add: oscillator_def)

lemma driven_energies:
  "energy_at (V (driven tm)) (t (driven tm)) = map (\<lambda>x. tm * (x * x))"
  "energy_at (K (driven tm)) (t (driven tm)) = map (\<lambda>p. tm * (p * p) / 2)"
  by (simp_all add: driven_def)

lemma oscillator_sums:
  "spec_potential_sum (map (\<lambda>x. x * x)) [0, 1] [0, 2] = [0, 4]"
  "spec_kinetic_sum (map (\<lambda>p. p * p / 2)) [0, 1] [0, 2] = [0, 2]"
  by (simp_all add: spec_potential_sum_def spec_kinetic_sum_def)

lemma oscillator_kernels:
  "spec_potential_kernel (1 / 2) (map (\<lambda>x. x * x)) [0, 1] [0, 2] [1, 1 / 2]
     = [1, exp (- 1) / 2]"
  "spec_kinetic_kernel (1 / 2) (map (\<lambda>p. p * p / 2)) [0, 1] [0, 2] = [1, exp (- 1)]"
  by (simp_all add: spec_potential_kernel_def spec_kinetic_kernel_def oscillator_sums
      np_exp_eq)

lemma init_oscillator:
  "init oscillator_parent kw_half =
     Inr (engine.extend (oscillator\<lparr>isEhrenfest := False\<rparr>)
            (bloch.fields 1 (1 / 2) 2 [1, exp (- 1) / 2] [1, exp (- 1)]), [])"
proof -
  have p: "oscillator_parent (update_kwargs kw_half (1 / 2)) = Inr oscillator"
    by (simp add: oscillator_parent_def)
  have s: "shape_preserving (energy_at (V oscillator) (t oscillator))"
    "shape_preserving (energy_at (K oscillator) (t oscillator))"
    by (simp_all add: oscillator_energies shape_preserving_map)
  show ?thesis
    unfolding init_eq[where parent = oscillator_parent, OF schedule_kw_half p] finish_init_eq[OF grid_shape_oscillator s]
    by (simp add: oscillator_energies) (simp add: oscillator_def oscillator_kernels)
qed

section \<open>Claims about the kernels\<close>

text \<open>
  Claim C2: when the schedule resolves to the step \<open>d\<close> and the parent constructor
  returns a grid of one shape, construction succeeds and caches exactly
  \<open>exp(-0.5 d (S - min S))\<close> times the absorbing-boundary mask, with
  \<open>S = V(X - 0.5 Theta) + V(X + 0.5 Theta)\<close>, as the potential kernel, and
  \<open>exp(-d (S - min S))\<close> with \<open>S = K(P + 0.5 Lambda) + K(P - 0.5 Lambda)\<close>, without a
  mask, as the kinetic kernel; \<open>d\<close> is the object's \<open>dbeta\<close>, and the accessors return the
  cached arrays at every time.
\<close>

theorem kernels_closed_form:
  assumes "temperature_schedule kw = Inr (temp, d, n)"
    and "parent (update_kwargs kw d) = Inr eng"
    and "grid_shape eng"
    and "shape_preserving (energy_at (V eng) (t eng))"
    and "shape_preserving (energy_at (K eng) (t eng))"
  shows "\<exists>self out. init parent kw = Inr (self, out) \<and> dbeta self = d \<and>
     expV self =
       spec_potential_kernel d (energy_at (V eng) (t eng)) (X eng) (Theta eng)
         (abs_boundary eng) \<and>
     expK self = spec_kinetic_kernel d (energy_at (K eng) (t eng)) (P eng) (Lambda eng) \<and>
     (\<forall>tm. get_exp_v self tm = expV self \<and> get_exp_k self tm = expK self)"
  unfolding init_eq[where parent = parent, OF assms(1,2)] finish_init_eq[OF assms(3,4,5)]
  by (simp add: get_exp_v_def get_exp_k_def engine.extend_def bloch.fields_def)

theorem kernels_closed_form_witness:
  "temperature_schedule kw_half = Inr (1, 1 / 2, 2) \<and>
   oscillator_parent (update_kwargs kw_half (1 / 2)) = Inr oscillator \<and>
   grid_shape oscillator \<and>
   shape_preserving (energy_at (V oscillator) (t oscillator)) \<and>
   shape_preserving (energy_at (K oscillator) (t oscillator)) \<and>
   (\<exists>self out. init oscillator_parent kw_half = Inr (self, out) \<and> dbeta self = 1 / 2 \<and>
      expV self = [1, exp (- 1) / 2] \<and> expK self = [1, exp (- 1)] \<and>
      (\<forall>tm. get_exp_v self tm = expV self \<and> get_exp_k self tm = expK self))"
proof -
  have p: "oscillator_parent (update_kwargs kw_half (1 / 2)) = Inr oscillator"
    by (simp add: oscillator_parent_def)
  have s: "shape_preserving (energy_at (V oscillator) (t oscillator))"
    "shape_preserving (energy_at (K oscillator) (t oscillator))"
    by (simp_all add: oscillator_energies shape_preserving_map)
  have v: "spec_potential_kernel (1 / 2) (energy_at (V oscillator) (t oscillator))
      (X oscillator) (Theta oscillator) (abs_boundary oscillator) = [1, exp (- 1) / 2]"
    unfolding oscillator_energies by (simp add: oscillator_def oscillator_kernels)
  have k: "spec_kinetic_kernel (1 / 2) (energy_at (K oscillator) (t oscillator))
      (P oscillator) (Lambda oscillator) = [1, exp (- 1)]"
    unfolding oscillator_energies by (simp add: oscillator_def oscillator_kernels)
  have c: "\<exists>self out. init oscillator_parent kw_half = Inr (self, out) \<and> dbeta self = 1 / 2 \<and>
      expV self = [1, exp (- 1) / 2] \<and> expK self = [1, exp (- 1)] \<and>
      (\<forall>tm. get_exp_v self tm = expV self \<and> get_exp_k self tm = expK self)"
    using kernels_closed_form[where parent = oscillator_parent,
        OF schedule_kw_half p grid_shape_oscillator s]
    unfolding v k .
  show ?thesis
    by (rule conjI[OF schedule_kw_half conjI[OF p conjI[OF grid_shape_oscillator
          conjI[OF s(1) conjI[OF s(2) c]]]]])
qed

lemma exp_kernel_range:
  assumes "(S::real list) \<noteq> []" "c \<le> 0"
    and "y \<in> set (map (\<lambda>s. np_exp (c * (s - Min (set S)))) S)"
  shows "0 \<le> y \<and> y \<le> 1"
proof -
  obtain s where s: "s \<in> set S" and y: "y = np_exp (c * (s - Min (set S)))"
    using assms(3) by auto
  have "Min (set S) \<le> s" using s by simp
  then have "0 \<le> s - Min (set S)" by linarith
  with assms(2) have "c * (s - Min (set S)) \<le> 0" by (rule mult_nonpos_nonneg)
  then show ?thesis unfolding y by (rule np_exp_range)
qed

lemma exp_kernel_attains:
  assumes "(S::real list) \<noteq> []"
  shows "\<exists>i<length S. map (\<lambda>s. np_exp (c * (s - Min (set S)))) S ! i = 1 \<and> S ! i = Min (set S)"
proof -
  have "Min (set S) \<in> set S" using assms by simp
  then obtain i where i: "i < length S" "S ! i = Min (set S)"
    by (auto simp: in_set_conv_nth)
  then show ?thesis by (auto simp: np_exp_zero)
qed

lemma exp_kernel_Max:
  assumes "(S::real list) \<noteq> []" "c \<le> 0"
  shows "Max (set (map (\<lambda>s. np_exp (c * (s - Min (set S)))) S)) = 1"
proof (rule Max_eqI)
  show "finite (set (map (\<lambda>s. np_exp (c * (s - Min (set S)))) S))" by simp
  show "\<And>y. y \<in> set (map (\<lambda>s. np_exp (c * (s - Min (set S)))) S) \<Longrightarrow> y \<le> 1"
    using exp_kernel_range[OF assms] by blast
  obtain i where "i < length S" "map (\<lambda>s. np_exp (c * (s - Min (set S)))) S ! i = 1"
    using exp_kernel_attains[OF assms(1), of c] by blast
  then show "1 \<in> set (map (\<lambda>s. np_exp (c * (s - Min (set S)))) S)"
    by (metis length_map nth_mem)
qed

lemma exp_kernel_positive:
  "i < length S \<Longrightarrow>
   0 < map (\<lambda>s. np_exp (c * (s - Min (set S)))) S ! i \<longleftrightarrow>
   \<not> exp (c * (S ! i - Min (set S))) < 1 / 2 ^ 1075"
  by (simp add: np_exp_pos_iff)

text \<open>
  Claim C3, as amended: on a grid of one shape with pointwise energies \<open>v\<close> and \<open>k\<close> and a
  positive step \<open>d\<close>, the potential kernel before the mask and the kinetic kernel are
  built, have an entry for every grid point, every entry lies in \<open>[0, 1]\<close>, the maximum is
  exactly 1, and the value 1 is taken at a grid point where the shifted-energy sum is
  minimal. An entry is positive unless its exponential underflows, and is 0 when it does.
\<close>

theorem kernels_in_closed_unit_interval:
  assumes "0 < d" and "grid_shape self"
    and "energy_at (V self) (t self) = map v"
    and "energy_at (K self) (t self) = map k"
  shows "\<exists>kv outv kk outk.
      raw_expV d self = Inr (kv, outv) \<and> build_expK d self = Inr (kk, outk) \<and>
      length kv = length (X self) \<and> length kk = length (P self) \<and>
      (\<forall>y\<in>set kv. 0 \<le> y \<and> y \<le> 1) \<and> (\<forall>y\<in>set kk. 0 \<le> y \<and> y \<le> 1) \<and>
      Max (set kv) = 1 \<and> Max (set kk) = 1 \<and>
      (\<exists>i<length kv. kv ! i = 1 \<and>
         spec_potential_sum (map v) (X self) (Theta self) ! i =
           Min (set (spec_potential_sum (map v) (X self) (Theta self)))) \<and>
      (\<exists>i<length kk. kk ! i = 1 \<and>
         spec_kinetic_sum (map k) (P self) (Lambda self) ! i =
           Min (set (spec_kinetic_sum (map k) (P self) (Lambda self)))) \<and>
      (\<forall>i<length kv. 0 < kv ! i \<longleftrightarrow>
         \<not> exp (- d * (1 / 2) * (spec_potential_sum (map v) (X self) (Theta self) ! i -
               Min (set (spec_potential_sum (map v) (X self) (Theta self))))) < 1 / 2 ^ 1075) \<and>
      (\<forall>i<length kk. 0 < kk ! i \<longleftrightarrow>
         \<not> exp (- d * (spec_kinetic_sum (map k) (P self) (Lambda self) ! i -
               Min (set (spec_kinetic_sum (map k) (P self) (Lambda self))))) < 1 / 2 ^ 1075)"
proof -
  define SV where "SV = spec_potential_sum (map v) (X self) (Theta self)"
  define SK where "SK = spec_kinetic_sum (map k) (P self) (Lambda self)"
  define kv where "kv = map (\<lambda>s. np_exp (- d * (1 / 2) * (s - Min (set SV)))) SV"
  define kk where "kk = map (\<lambda>s. np_exp (- d * (s - Min (set SK)))) SK"
  have g: "X self \<noteq> []" "length (Theta self) = length (X self)"
    "P self \<noteq> []" "length (Lambda self) = length (P self)"
    using assms(2) by (auto simp: grid_shape_def)
  have sv: "shape_preserving (energy_at (V self) (t self))"
    and sk: "shape_preserving (energy_at (K self) (t self))"
    by (simp_all add: assms(3,4) shape_preserving_def)
  have lv: "length SV = length (X self)"
    using g by (simp add: SV_def length_spec_potential_sum shape_preserving_def)
  have lk: "length SK = length (P self)"
    using g by (simp add: SK_def length_spec_kinetic_sum shape_preserving_def)
  have nv: "SV \<noteq> []" using lv g(1) by auto
  have nk: "SK \<noteq> []" using lk g(3) by auto
  have cv: "- d * (1 / 2) \<le> 0" and ck: "- d \<le> 0" using assms(1) by simp_all
  have rv: "raw_expV d self = Inr (kv, time_warning PotentialTimeDependent (V self) (t self))"
    unfolding raw_expV_eq[OF g(1,2) sv] by (simp add: kv_def SV_def assms(3))
  have rk: "build_expK d self = Inr (kk, time_warning KineticTimeDependent (K self) (t self))"
    unfolding build_expK_eq[OF g(3,4) sk]
    by (simp add: kk_def SK_def assms(4) spec_kinetic_kernel_def)
  have len: "length kv = length (X self)" "length kk = length (P self)"
    using lv lk by (simp_all add: kv_def kk_def)
  have range_v: "\<forall>y\<in>set kv. 0 \<le> y \<and> y \<le> 1"
    unfolding kv_def using exp_kernel_range[OF nv cv] by blast
  have range_k: "\<forall>y\<in>set kk. 0 \<le> y \<and> y \<le> 1"
    unfolding kk_def using exp_kernel_range[OF nk ck] by blast
  have max_v: "Max (set kv) = 1" unfolding kv_def by (rule exp_kernel_Max[OF nv cv])
  have max_k: "Max (set kk) = 1" unfolding kk_def by (rule exp_kernel_Max[OF nk ck])
  have at_v: "\<exists>i<length kv. kv ! i = 1 \<and> SV ! i = Min (set SV)"
    using exp_kernel_attains[OF nv, of "- d * (1 / 2)"] by (simp add: kv_def)
  have at_k: "\<exists>i<length kk. kk ! i = 1 \<and> SK ! i = Min (set SK)"
    using exp_kernel_attains[OF nk, of "- d"] by (simp add: kk_def)
  have pos_v: "\<forall>i<length kv. 0 < kv ! i \<longleftrightarrow>
      \<not> exp (- d * (1 / 2) * (SV ! i - Min (set SV))) < 1 / 2 ^ 1075"
    unfolding kv_def using exp_kernel_positive[of _ SV "- d * (1 / 2)"] by simp
  have pos_k: "\<forall>i<length kk. 0 < kk ! i \<longleftrightarrow>
      \<not> exp (- d * (SK ! i - Min (set SK))) < 1 / 2 ^ 1075"
    unfolding kk_def using exp_kernel_positive[of _ SK "- d"] by simp
  from rv rk len range_v range_k max_v max_k at_v at_k pos_v pos_k show ?thesis
    unfolding SV_def SK_def by blast
qed

theorem kernels_in_closed_unit_interval_witness:
  "0 < (1 / 2 :: real) \<and> grid_shape oscillator \<and>
   energy_at (V oscillator) (t oscillator) = map (\<lambda>x. x * x) \<and>
   energy_at (K oscillator) (t oscillator) = map (\<lambda>p. p * p / 2) \<and>
   raw_expV (1 / 2) oscillator = Inr ([1, exp (- 1)], []) \<and>
   build_expK (1 / 2) oscillator = Inr ([1, exp (- 1)], []) \<and>
   (\<exists>kv outv kk outk.
      raw_expV (1 / 2) oscillator = Inr (kv, outv) \<and>
      build_expK (1 / 2) oscillator = Inr (kk, outk) \<and>
      length kv = length (X oscillator) \<and> length kk = length (P oscillator) \<and>
      (\<forall>y\<in>set kv. 0 \<le> y \<and> y \<le> 1) \<and> (\<forall>y\<in>set kk. 0 \<le> y \<and> y \<le> 1) \<and>
      Max (set kv) = 1 \<and> Max (set kk) = 1 \<and>
      (\<exists>i<length kv. kv ! i = 1 \<and>
         spec_potential_sum (map (\<lambda>x. x * x)) (X oscillator) (Theta oscillator) ! i =
           Min (set (spec_potential_sum (map (\<lambda>x. x * x)) (X oscillator) (Theta oscillator)))) \<and>
      (\<exists>i<length kk. kk ! i = 1 \<and>
         spec_kinetic_sum (map (\<lambda>p. p * p / 2)) (P oscillator) (Lambda oscillator) ! i =
           Min (set (spec_kinetic_sum (map (\<lambda>p. p * p / 2)) (P oscillator) (Lambda oscillator)))) \<and>
      (\<forall>i<length kv. 0 < kv ! i \<longleftrightarrow>
         \<not> exp (- (1 / 2) * (1 / 2) *
               (spec_potential_sum (map (\<lambda>x. x * x)) (X oscillator) (Theta oscillator) ! i -
                Min (set (spec_potential_sum (map (\<lambda>x. x * x)) (X oscillator) (Theta oscillator)))))
            < 1 / 2 ^ 1075) \<and>
      (\<forall>i<length kk. 0 < kk ! i \<longleftrightarrow>
         \<not> exp (- (1 / 2) *
               (spec_kinetic_sum (map (\<lambda>p. p * p / 2)) (P oscillator) (Lambda oscillator) ! i -
                Min (set (spec_kinetic_sum (map (\<lambda>p. p * p / 2)) (P oscillator) (Lambda oscillator)))))
            < 1 / 2 ^ 1075))"
proof -
  have d: "0 < (1 / 2 :: real)" by simp
  have g: "X oscillator \<noteq> []" "length (Theta oscillator) = length (X oscillator)"
    "P oscillator \<noteq> []" "length (Lambda oscillator) = length (P oscillator)"
    by (simp_all add: oscillator_def)
  have s: "shape_preserving (energy_at (V oscillator) (t oscillator))"
    "shape_preserving (energy_at (K oscillator) (t oscillator))"
    by (simp_all add: oscillator_energies shape_preserving_map)
  have rv: "raw_expV (1 / 2) oscillator = Inr ([1, exp (- 1)], [])"
    unfolding raw_expV_eq[OF g(1,2) s(1)] oscillator_energies
    by (simp add: oscillator_def oscillator_sums np_exp_eq)
  have rk: "build_expK (1 / 2) oscillator = Inr ([1, exp (- 1)], [])"
    unfolding build_expK_eq[OF g(3,4) s(2)] oscillator_energies
    by (simp add: oscillator_def oscillator_kernels)
  note c = kernels_in_closed_unit_interval[OF d grid_shape_oscillator oscillator_energies]
  show ?thesis
    by (rule conjI[OF d conjI[OF grid_shape_oscillator conjI[OF oscillator_energies(1)
          conjI[OF oscillator_energies(2) conjI[OF rv conjI[OF rk c]]]]]])
qed

text \<open>
  Claim C3 as stated has every entry positive. On the wider grid, with the same pointwise
  energies and the step \<open>1/2\<close>, the shifted sum at the far point exceeds the minimum by
  40000, the exponent is \<open>-10000\<close>, and the exponential underflows: the potential kernel
  before the mask is \<open>[1, 0]\<close>.
\<close>

lemma grid_shape_wide_oscillator: "grid_shape wide_oscillator"
  by (simp add: grid_shape_def wide_oscillator_def oscillator_def)

theorem potential_kernel_underflows:
  "0 < (1 / 2 :: real) \<and> grid_shape wide_oscillator \<and>
   V wide_oscillator = V oscillator \<and> K wide_oscillator = K oscillator \<and>
   raw_expV (1 / 2) wide_oscillator = Inr ([1, 0], []) \<and>
   \<not> 0 < [1, 0 :: real] ! 1"
proof -
  have d: "0 < (1 / 2 :: real)" by simp
  have e: "V wide_oscillator = V oscillator" "K wide_oscillator = K oscillator"
    by (simp_all add: wide_oscillator_def)
  have en: "energy_at (V wide_oscillator) (t wide_oscillator) = map (\<lambda>x. x * x)"
    by (simp add: wide_oscillator_def oscillator_def)
  have g: "X wide_oscillator \<noteq> []" "length (Theta wide_oscillator) = length (X wide_oscillator)"
    by (simp_all add: wide_oscillator_def)
  have s: "shape_preserving (energy_at (V wide_oscillator) (t wide_oscillator))"
    by (simp add: en shape_preserving_map)
  have sum: "spec_potential_sum (map (\<lambda>x. x * x)) [0, 100] [0, 200] = [0, 40000]"
    by (simp add: spec_potential_sum_def)
  have u: "np_exp (- 10000) = 0" by (rule np_exp_underflow) simp
  have rv: "raw_expV (1 / 2) wide_oscillator = Inr ([1, 0], [])"
    unfolding raw_expV_eq[OF g s] en
    by (simp add: wide_oscillator_def oscillator_def sum np_exp_zero u)
  have z: "\<not> 0 < [1, 0 :: real] ! 1" by simp
  show ?thesis
    by (rule conjI[OF d conjI[OF grid_shape_wide_oscillator conjI[OF e(1) conjI[OF e(2)
          conjI[OF rv z]]]]])
qed

text \<open>
  Claim C7: when \<open>V\<close> needs the time argument, construction still completes on a grid of
  one shape: the one-argument call raises \<open>TypeError\<close>, the handler evaluates \<open>V\<close> with
  two arguments at the object's time \<open>t\<close>, the potential kernel is the closed formula for
  \<open>V\<close> at that time, and the warning naming \<open>t\<close> is printed. The same holds for \<open>K\<close>.
\<close>

theorem time_dependent_energy_recovered:
  assumes "temperature_schedule kw = Inr (temp, d, n)"
    and "parent (update_kwargs kw d) = Inr eng"
    and "grid_shape eng"
    and "shape_preserving (energy_at (V eng) (t eng))"
    and "shape_preserving (energy_at (K eng) (t eng))"
  shows "\<exists>self out. init parent kw = Inr (self, out) \<and> t self = t eng \<and>
     (\<forall>g. V eng = Timed g \<longrightarrow>
        call1 (V eng) (X eng) = Inl (TypeError ''takes exactly 3 arguments (2 given)'') \<and>
        expV self =
          spec_potential_kernel d (\<lambda>a. g a (t eng)) (X eng) (Theta eng) (abs_boundary eng) \<and>
        PotentialTimeDependent (t eng) \<in> set out) \<and>
     (\<forall>h. K eng = Timed h \<longrightarrow>
        call1 (K eng) (P eng) = Inl (TypeError ''takes exactly 3 arguments (2 given)'') \<and>
        expK self = spec_kinetic_kernel d (\<lambda>a. h a (t eng)) (P eng) (Lambda eng) \<and>
        KineticTimeDependent (t eng) \<in> set out)"
  unfolding init_eq[where parent = parent, OF assms(1,2)] finish_init_eq[OF assms(3,4,5)]
  by (auto simp: engine.extend_def bloch.fields_def)

theorem time_dependent_energy_recovered_witness:
  "temperature_schedule kw_half = Inr (1, 1 / 2, 2) \<and>
   driven_parent 1 (update_kwargs kw_half (1 / 2)) = Inr (driven 1) \<and>
   grid_shape (driven 1) \<and>
   shape_preserving (energy_at (V (driven 1)) (t (driven 1))) \<and>
   shape_preserving (energy_at (K (driven 1)) (t (driven 1))) \<and>
   V (driven 1) = Timed (\<lambda>a s. map (\<lambda>x. s * (x * x)) a) \<and>
   K (driven 1) = Timed (\<lambda>a s. map (\<lambda>p. s * (p * p) / 2) a) \<and>
   (\<exists>self out. init (driven_parent 1) kw_half = Inr (self, out) \<and> t self = 1 \<and>
      expV self = [1, exp (- 1) / 2] \<and> PotentialTimeDependent 1 \<in> set out \<and>
      expK self = [1, exp (- 1)] \<and> KineticTimeDependent 1 \<in> set out)"
proof -
  have p: "driven_parent 1 (update_kwargs kw_half (1 / 2)) = Inr (driven 1)"
    by (simp add: driven_parent_def)
  have s: "shape_preserving (energy_at (V (driven 1)) (t (driven 1)))"
    "shape_preserving (energy_at (K (driven 1)) (t (driven 1)))"
    by (simp_all add: driven_energies shape_preserving_map)
  have f: "V (driven 1) = Timed (\<lambda>a s. map (\<lambda>x. s * (x * x)) a)"
    "K (driven 1) = Timed (\<lambda>a s. map (\<lambda>p. s * (p * p) / 2) a)"
    by (simp_all add: driven_def)
  have tm: "t (driven 1) = 1" by (simp add: driven_def)
  have v: "spec_potential_kernel (1 / 2) (\<lambda>a. map (\<lambda>x. 1 * (x * x)) a)
      (X (driven 1)) (Theta (driven 1)) (abs_boundary (driven 1)) = [1, exp (- 1) / 2]"
    by (simp add: driven_def spec_potential_kernel_def spec_potential_sum_def np_exp_eq)
  have k: "spec_kinetic_kernel (1 / 2) (\<lambda>a. map (\<lambda>p. 1 * (p * p) / 2) a)
      (P (driven 1)) (Lambda (driven 1)) = [1, exp (- 1)]"
    by (simp add: driven_def spec_kinetic_kernel_def spec_kinetic_sum_def np_exp_eq)
  obtain self out where r: "init (driven_parent 1) kw_half = Inr (self, out)"
      "t self = t (driven 1)"
      "\<forall>g. V (driven 1) = Timed g \<longrightarrow>
        call1 (V (driven 1)) (X (driven 1)) = Inl (TypeError ''takes exactly 3 arguments (2 given)'') \<and>
        expV self = spec_potential_kernel (1 / 2) (\<lambda>a. g a (t (driven 1))) (X (driven 1))
          (Theta (driven 1)) (abs_boundary (driven 1)) \<and>
        PotentialTimeDependent (t (driven 1)) \<in> set out"
      "\<forall>h. K (driven 1) = Timed h \<longrightarrow>
        call1 (K (driven 1)) (P (driven 1)) = Inl (TypeError ''takes exactly 3 arguments (2 given)'') \<and>
        expK self = spec_kinetic_kernel (1 / 2) (\<lambda>a. h a (t (driven 1))) (P (driven 1))
          (Lambda (driven 1)) \<and>
        KineticTimeDependent (t (driven 1)) \<in> set out"
    using time_dependent_energy_recovered[where parent = "driven_parent 1",
        OF schedule_kw_half p grid_shape_driven s]
    by blast
  have rv: "expV self = [1, exp (- 1) / 2] \<and> PotentialTimeDependent 1 \<in> set out"
    using r(3) f(1) v by (simp add: tm)
  have rk: "expK self = [1, exp (- 1)] \<and> KineticTimeDependent 1 \<in> set out"
    using r(4) f(2) k by (simp add: tm)
  have c: "\<exists>self out. init (driven_parent 1) kw_half = Inr (self, out) \<and> t self = 1 \<and>
      expV self = [1, exp (- 1) / 2] \<and> PotentialTimeDependent 1 \<in> set out \<and>
      expK self = [1, exp (- 1)] \<and> KineticTimeDependent 1 \<in> set out"
    using r(1,2) rv rk tm by auto
  show ?thesis
    by (rule conjI[OF schedule_kw_half conjI[OF p conjI[OF grid_shape_driven
          conjI[OF s(1) conjI[OF s(2) conjI[OF f(1) conjI[OF f(2) c]]]]]]])
qed

section \<open>Determinism of the kernels\<close>

lemma schedule_depends_on:
  assumes "kw1 ''kT'' = kw2 ''kT''" "kw1 ''dbeta'' = kw2 ''dbeta''"
  shows "temperature_schedule kw1 = temperature_schedule kw2"
  unfolding temperature_schedule_def assms ..

lemma finish_init_kernels_depend_on:
  assumes "same_kernel_inputs e1 e2"
  shows "bindE (finish_init temp1 d n1 e1) (\<lambda>(self, out). Inr (expV self, expK self)) =
         bindE (finish_init temp2 d n2 e2) (\<lambda>(self, out). Inr (expV self, expK self))"
proof -
  have eq: "X e1 = X e2" "P e1 = P e2" "Theta e1 = Theta e2" "Lambda e1 = Lambda e2"
    "V e1 = V e2" "K e1 = K e2" "abs_boundary e1 = abs_boundary e2" "t e1 = t e2"
    using assms by (simp_all add: same_kernel_inputs_def)
  let ?s1 = "e1\<lparr>isEhrenfest := False\<rparr>" and ?s2 = "e2\<lparr>isEhrenfest := False\<rparr>"
  have tm: "t ?s1 = t ?s2" and ab: "abs_boundary ?s1 = abs_boundary ?s2"
    by (simp_all add: eq)
  have v1: "potential_sum ?s1 = potential_sum ?s2"
    by (simp add: potential_sum_def eq)
  have v2: "potential_sum_at_t ?s1 = potential_sum_at_t ?s2"
    by (simp add: potential_sum_at_t_def eq)
  have k1: "kinetic_sum ?s1 = kinetic_sum ?s2"
    by (simp add: kinetic_sum_def eq)
  have k2: "kinetic_sum_at_t ?s1 = kinetic_sum_at_t ?s2"
    by (simp add: kinetic_sum_at_t_def eq)
  have v: "build_expV d ?s1 = build_expV d ?s2"
    unfolding build_expV_def raw_expV_def potential_energy_def v1 v2 tm ab ..
  have k: "build_expK d ?s1 = build_expK d ?s2"
    unfolding build_expK_def kinetic_energy_def k1 k2 tm ..
  show ?thesis
    unfolding finish_init_def Let_def v k
    by (simp add: bindE_def engine.extend_def bloch.fields_def split: sum.splits prod.splits)
qed

text \<open>
  Claim C9, as amended: two constructions with the same \<open>kT\<close> and \<open>dbeta\<close> among the
  keyword arguments, whose parent constructors return the same grid arrays, energy
  functions and mask and the same current time \<open>t\<close>, cache the same two kernels,
  whatever else differs between them (other keyword arguments, the Wigner function, the
  Ehrenfest flag).
\<close>

theorem kernels_deterministic:
  assumes "kw1 ''kT'' = kw2 ''kT''" and "kw1 ''dbeta'' = kw2 ''dbeta''"
    and "temperature_schedule kw1 = Inr (temp, d, n)"
    and "parent1 (update_kwargs kw1 d) = Inr e1"
    and "parent2 (update_kwargs kw2 d) = Inr e2"
    and "same_kernel_inputs e1 e2"
  shows "constructed_kernels parent1 kw1 = constructed_kernels parent2 kw2"
proof -
  have s2: "temperature_schedule kw2 = Inr (temp, d, n)"
    using schedule_depends_on[OF assms(1,2)] assms(3) by simp
  show ?thesis
    unfolding constructed_kernels_def
      init_eq[where parent = parent1, OF assms(3,4)] init_eq[where parent = parent2, OF s2 assms(5)]
    by (rule finish_init_kernels_depend_on[OF assms(6)])
qed

lemma constructed_kernels_oscillator:
  "constructed_kernels oscillator_parent kw_half = Inr ([1, exp (- 1) / 2], [1, exp (- 1)])"
  by (simp add: constructed_kernels_def init_oscillator bindE_def engine.extend_def
      bloch.fields_def)

theorem kernels_deterministic_witness:
  "kw_half ''kT'' = kw_half_dt ''kT'' \<and> kw_half ''dbeta'' = kw_half_dt ''dbeta'' \<and>
   kw_half ''dt'' \<noteq> kw_half_dt ''dt'' \<and>
   temperature_schedule kw_half = Inr (1, 1 / 2, 2) \<and>
   oscillator_parent (update_kwargs kw_half (1 / 2)) = Inr oscillator \<and>
   oscillator_later_parent (update_kwargs kw_half_dt (1 / 2)) = Inr oscillator_later \<and>
   same_kernel_inputs oscillator oscillator_later \<and>
   wignerfunction oscillator \<noteq> wignerfunction oscillator_later \<and>
   constructed_kernels oscillator_parent kw_half = Inr ([1, exp (- 1) / 2], [1, exp (- 1)]) \<and>
   constructed_kernels oscillator_later_parent kw_half_dt =
     Inr ([1, exp (- 1) / 2], [1, exp (- 1)])"
proof -
  have a: "kw_half ''kT'' = kw_half_dt ''kT''" "kw_half ''dbeta'' = kw_half_dt ''dbeta''"
    "kw_half ''dt'' \<noteq> kw_half_dt ''dt''"
    by (simp_all add: kw_half_def kw_half_dt_def)
  have p1: "oscillator_parent (update_kwargs kw_half (1 / 2)) = Inr oscillator"
    by (simp add: oscillator_parent_def)
  have p2: "oscillator_later_parent (update_kwargs kw_half_dt (1 / 2)) = Inr oscillator_later"
    by (simp add: oscillator_later_parent_def)
  have same: "same_kernel_inputs oscillator oscillator_later"
    by (simp add: same_kernel_inputs_def oscillator_later_def)
  have w: "wignerfunction oscillator \<noteq> wignerfunction oscillator_later"
    by (simp add: oscillator_later_def oscillator_def)
  have c: "constructed_kernels oscillator_later_parent kw_half_dt =
     Inr ([1, exp (- 1) / 2], [1, exp (- 1)])"
    using kernels_deterministic[where ?parent1.0 = oscillator_parent
        and ?parent2.0 = oscillator_later_parent, OF a(1,2) schedule_kw_half p1 p2 same]
    by (simp add: constructed_kernels_oscillator)
  show ?thesis
    by (rule conjI[OF a(1) conjI[OF a(2) conjI[OF a(3) conjI[OF schedule_kw_half
          conjI[OF p1 conjI[OF p2 conjI[OF same conjI[OF w
          conjI[OF constructed_kernels_oscillator c]]]]]]]]])
qed

text \<open>
  Claim C9 as stated leaves the current time out of the inputs: the two constructions
  below have the same keyword arguments, grid arrays, energy functions and mask, and
  differ in \<open>t\<close> alone; the energies need the time, and the kernels differ.
\<close>

lemma constructed_kernels_driven:
  "constructed_kernels (driven_parent tm) kw_half =
     Inr (spec_potential_kernel (1 / 2) (map (\<lambda>x. tm * (x * x))) [0, 1] [0, 2] [1, 1 / 2],
          spec_kinetic_kernel (1 / 2) (map (\<lambda>p. tm * (p * p) / 2)) [0, 1] [0, 2])"
proof -
  have p: "driven_parent tm (update_kwargs kw_half (1 / 2)) = Inr (driven tm)"
    by (simp add: driven_parent_def)
  have s: "shape_preserving (energy_at (V (driven tm)) (t (driven tm)))"
    "shape_preserving (energy_at (K (driven tm)) (t (driven tm)))"
    by (simp_all add: driven_energies shape_preserving_map)
  show ?thesis
    unfolding constructed_kernels_def
      init_eq[where parent = "driven_parent tm", OF schedule_kw_half p]
      finish_init_eq[OF grid_shape_driven s] driven_energies
    by (simp add: bindE_def engine.extend_def bloch.fields_def) (simp add: driven_def)
qed

theorem kernels_depend_on_time:
  "X (driven 0) = X (driven 1) \<and> P (driven 0) = P (driven 1) \<and>
   Theta (driven 0) = Theta (driven 1) \<and> Lambda (driven 0) = Lambda (driven 1) \<and>
   V (driven 0) = V (driven 1) \<and> K (driven 0) = K (driven 1) \<and>
   abs_boundary (driven 0) = abs_boundary (driven 1) \<and>
   constructed_kernels (driven_parent 0) kw_half = Inr ([1, 1 / 2], [1, 1]) \<and>
   constructed_kernels (driven_parent 1) kw_half = Inr ([1, exp (- 1) / 2], [1, exp (- 1)]) \<and>
   constructed_kernels (driven_parent 0) kw_half \<noteq> constructed_kernels (driven_parent 1) kw_half"
proof -
  have k0: "constructed_kernels (driven_parent 0) kw_half = Inr ([1, 1 / 2], [1, 1])"
    unfolding constructed_kernels_driven
    by (simp add: spec_potential_kernel_def spec_kinetic_kernel_def spec_potential_sum_def
        spec_kinetic_sum_def np_exp_eq)
  have k1: "constructed_kernels (driven_parent 1) kw_half = Inr ([1, exp (- 1) / 2], [1, exp (- 1)])"
    unfolding constructed_kernels_driven
    by (simp add: spec_potential_kernel_def spec_kinetic_kernel_def spec_potential_sum_def
        spec_kinetic_sum_def np_exp_eq)
  have ne: "constructed_kernels (driven_parent 0) kw_half \<noteq> constructed_kernels (driven_parent 1) kw_half"
    unfolding k0 k1 by simp
  show ?thesis using k0 k1 ne by (simp add: driven_def)
qed

section \<open>The keyword arguments handed to the parent constructor\<close>

lemma schedule_kw_three_tenths: "temperature_schedule kw_three_tenths = Inr (1, 1 / 3, 3)"
  by (simp add: kw_three_tenths_def temperature_schedule_def resolve_steps_def fdiv_def
      bindE_def py2_round_def py_int_def)

lemma init_attributes:
  assumes "temperature_schedule kw = Inr (temp, d, n)" and "init parent kw = Inr (self, out)"
  shows "kT self = temp \<and> dbeta self = d \<and> num_beta_steps self = n \<and> \<not> isEhrenfest self"
  using assms
  by (auto simp: init_def finish_init_def bindE_def Let_def engine.extend_def
      bloch.fields_def split: sum.splits prod.splits)

text \<open>
  Claim C10, as amended: when the schedule resolves to the step \<open>d\<close>, the parent
  constructor is called with the keyword arguments in which both \<open>dt\<close> and \<open>dbeta\<close> are
  \<open>d\<close>, whatever the caller supplied for them, and every other entry is as the caller
  gave it. The construction depends on the parent constructor through this one call
  only, and \<open>d\<close> is the object's \<open>dbeta\<close>.
\<close>

theorem parent_receives_resolved_step:
  assumes "temperature_schedule kw = Inr (temp, d, n)"
  shows "init parent kw = bindE (parent (update_kwargs kw d)) (finish_init temp d n) \<and>
     update_kwargs kw d ''dt'' = Some (Num d) \<and>
     update_kwargs kw d ''dbeta'' = Some (Num d) \<and>
     (\<forall>k. k \<noteq> ''dt'' \<and> k \<noteq> ''dbeta'' \<longrightarrow> update_kwargs kw d k = kw k) \<and>
     (\<forall>parent'. parent' (update_kwargs kw d) = parent (update_kwargs kw d) \<longrightarrow>
        init parent' kw = init parent kw) \<and>
     (\<forall>self out. init parent kw = Inr (self, out) \<longrightarrow> dbeta self = d)"
proof -
  have a: "init parent kw = bindE (parent (update_kwargs kw d)) (finish_init temp d n)"
    using assms by (simp add: init_def bindE_def)
  have b: "\<forall>parent'. parent' (update_kwargs kw d) = parent (update_kwargs kw d) \<longrightarrow>
        init parent' kw = init parent kw"
    using assms by (simp add: init_def bindE_def)
  have c: "\<forall>self out. init parent kw = Inr (self, out) \<longrightarrow> dbeta self = d"
    using init_attributes[OF assms] by blast
  have u: "update_kwargs kw d ''dt'' = Some (Num d)"
    "update_kwargs kw d ''dbeta'' = Some (Num d)"
    "\<forall>k. k \<noteq> ''dt'' \<and> k \<noteq> ''dbeta'' \<longrightarrow> update_kwargs kw d k = kw k"
    by (simp_all add: update_kwargs_def)
  show ?thesis
    by (rule conjI[OF a conjI[OF u(1) conjI[OF u(2) conjI[OF u(3) conjI[OF b c]]]]])
qed

theorem parent_receives_resolved_step_witness:
  "temperature_schedule kw_three_tenths = Inr (1, 1 / 3, 3) \<and>
   kw_three_tenths ''dt'' = Some (Num 5) \<and>
   update_kwargs kw_three_tenths (1 / 3) ''dt'' = Some (Num (1 / 3)) \<and>
   update_kwargs kw_three_tenths (1 / 3) ''dbeta'' = Some (Num (1 / 3)) \<and>
   update_kwargs kw_three_tenths (1 / 3) ''omega'' = kw_three_tenths ''omega'' \<and>
   update_kwargs kw_three_tenths (1 / 3) ''kT'' = kw_three_tenths ''kT'' \<and>
   kw_three_tenths ''omega'' = Some (Num 2) \<and>
   init oscillator_parent kw_three_tenths =
     bindE (oscillator_parent (update_kwargs kw_three_tenths (1 / 3))) (finish_init 1 (1 / 3) 3)"
proof -
  note r = parent_receives_resolved_step[where parent = oscillator_parent,
      OF schedule_kw_three_tenths]
  have a: "init oscillator_parent kw_three_tenths =
     bindE (oscillator_parent (update_kwargs kw_three_tenths (1 / 3))) (finish_init 1 (1 / 3) 3)"
    using r by (rule conjunct1)
  have u: "update_kwargs kw_three_tenths (1 / 3) ''dt'' = Some (Num (1 / 3))"
    "update_kwargs kw_three_tenths (1 / 3) ''dbeta'' = Some (Num (1 / 3))"
    "\<forall>k. k \<noteq> ''dt'' \<and> k \<noteq> ''dbeta'' \<longrightarrow>
       update_kwargs kw_three_tenths (1 / 3) k = kw_three_tenths k"
    using r[THEN conjunct2, THEN conjunct1]
      r[THEN conjunct2, THEN conjunct2, THEN conjunct1]
      r[THEN conjunct2, THEN conjunct2, THEN conjunct2, THEN conjunct1]
    by - assumption+
  have o: "update_kwargs kw_three_tenths (1 / 3) ''omega'' = kw_three_tenths ''omega''"
    using u(3) by simp
  have k: "update_kwargs kw_three_tenths (1 / 3) ''kT'' = kw_three_tenths ''kT''"
    using u(3) by simp
  have v: "kw_three_tenths ''dt'' = Some (Num 5)" "kw_three_tenths ''omega'' = Some (Num 2)"
    by (simp_all add: kw_three_tenths_def)
  show ?thesis
    by (rule conjI[OF schedule_kw_three_tenths conjI[OF v(1) conjI[OF u(1) conjI[OF u(2)
          conjI[OF o conjI[OF k conjI[OF v(2) a]]]]]]])
qed

text \<open>
  Claim C10 as stated counts \<open>dbeta\<close> among the entries passed through unchanged: the
  caller's \<open>dbeta = 3/10\<close> at \<open>kT = 1\<close> is not the reciprocal of a whole number of steps, and
  the parent constructor receives \<open>dbeta = 1/3\<close> in its place.
\<close>

theorem dbeta_entry_is_replaced:
  "temperature_schedule kw_three_tenths = Inr (1, 1 / 3, 3) \<and>
   init oscillator_parent kw_three_tenths =
     bindE (oscillator_parent (update_kwargs kw_three_tenths (1 / 3))) (finish_init 1 (1 / 3) 3) \<and>
   kw_three_tenths ''dbeta'' = Some (Num (3 / 10)) \<and>
   update_kwargs kw_three_tenths (1 / 3) ''dbeta'' = Some (Num (1 / 3)) \<and>
   update_kwargs kw_three_tenths (1 / 3) ''dbeta'' \<noteq> kw_three_tenths ''dbeta''"
proof -
  have a: "init oscillator_parent kw_three_tenths =
     bindE (oscillator_parent (update_kwargs kw_three_tenths (1 / 3))) (finish_init 1 (1 / 3) 3)"
    by (simp add: init_def schedule_kw_three_tenths bindE_def)
  have b: "kw_three_tenths ''dbeta'' = Some (Num (3 / 10))"
    by (simp add: kw_three_tenths_def)
  have c: "update_kwargs kw_three_tenths (1 / 3) ''dbeta'' = Some (Num (1 / 3))"
    by (simp add: update_kwargs_def)
  have d: "update_kwargs kw_three_tenths (1 / 3) ''dbeta'' \<noteq> kw_three_tenths ''dbeta''"
    unfolding b c by simp
  show ?thesis
    by (rule conjI[OF schedule_kw_three_tenths conjI[OF a conjI[OF b conjI[OF c d]]]])
qed

section \<open>The Gibbs projection\<close>

lemma propagate_funpow:
  "propagate to_p to_x m self = (single_step to_p to_x ^^ m) self"
  by (induction m arbitrary: self) (simp_all add: funpow_swap1)

lemma flat_state_ones:
  assumes "length p = length x"
  shows "flat_state x p = Inr (replicate (length x) 1)"
proof -
  have "map (\<lambda>v. v + 1) (map2 (+) (scale 0 x) (scale 0 p)) = replicate (length x) 1"
    using assms by (intro nth_equalityI) (simp_all add: scale_def)
  then show ?thesis
    using assms by (simp add: flat_state_def broadcast_def bindE_def scale_def)
qed

lemma single_step_flag:
  assumes "\<not> isEhrenfest self"
  shows "\<not> isEhrenfest (single_step to_p to_x self) \<and>
     ehrenfest_evaluations (single_step to_p to_x self) = ehrenfest_evaluations self"
  using assms by (simp add: single_step_def Let_def)

lemma propagate_flag:
  assumes "\<not> isEhrenfest self"
  shows "\<not> isEhrenfest (propagate to_p to_x m self) \<and>
     ehrenfest_evaluations (propagate to_p to_x m self) = ehrenfest_evaluations self"
  using assms
proof (induction m arbitrary: self)
  case 0
  then show ?case by simp
next
  case (Suc m)
  have s: "\<not> isEhrenfest (single_step to_p to_x self)"
    "ehrenfest_evaluations (single_step to_p to_x self) = ehrenfest_evaluations self"
    using single_step_flag[OF Suc.prems] by simp_all
  show ?case using Suc.IH[OF s(1)] s(2) by simp
qed

text \<open>With the flag set, the engine computes the expectation values in every step.\<close>

lemma propagate_counts_when_enabled:
  assumes "isEhrenfest self"
  shows "isEhrenfest (propagate to_p to_x m self) \<and>
     ehrenfest_evaluations (propagate to_p to_x m self) = ehrenfest_evaluations self + m"
  using assms
proof (induction m arbitrary: self)
  case 0
  then show ?case by simp
next
  case (Suc m)
  have s: "isEhrenfest (single_step to_p to_x self)"
    "ehrenfest_evaluations (single_step to_p to_x self) = Suc (ehrenfest_evaluations self)"
    using Suc.prems by (simp_all add: single_step_def Let_def)
  show ?case using Suc.IH[OF s(1)] s(2) by simp
qed

lemma get_gibbs_state_eq:
  assumes "length (P self) = length (X self)"
  shows "get_gibbs_state to_p to_x self =
     Inr (wignerfunction (propagate to_p to_x (nat (num_beta_steps self))
            (self\<lparr>wignerfunction := replicate (length (X self)) 1\<rparr>)),
          propagate to_p to_x (nat (num_beta_steps self))
            (self\<lparr>wignerfunction := replicate (length (X self)) 1\<rparr>))"
  by (simp add: get_gibbs_state_def set_wignerfunction_def flat_state_ones[OF assms] bindE_def
      Let_def)

text \<open>
  Claim C4: on a grid whose coordinate arrays have one shape, \<open>get_gibbs_state\<close> sets the
  Wigner function to 1 at every grid point, then runs the engine's step exactly
  \<open>num_beta_steps\<close> times from that state, and returns the Wigner function of the
  resulting object, which is the object's state afterwards.
\<close>

theorem get_gibbs_state_flat_then_steps:
  assumes "length (P self) = length (X self)"
  shows "get_gibbs_state to_p to_x self =
     Inr (wignerfunction ((single_step to_p to_x ^^ nat (num_beta_steps self))
            (self\<lparr>wignerfunction := replicate (length (X self)) 1\<rparr>)),
          (single_step to_p to_x ^^ nat (num_beta_steps self))
            (self\<lparr>wignerfunction := replicate (length (X self)) 1\<rparr>))"
  using get_gibbs_state_eq[OF assms] by (simp add: propagate_funpow)

lemma gibbs_object_fields:
  "X gibbs_object = [0, 1]" "P gibbs_object = [0, 1]" "num_beta_steps gibbs_object = 2"
  "expV gibbs_object = [1, exp (- 1) / 2]" "expK gibbs_object = [1, exp (- 1)]"
  "\<not> isEhrenfest gibbs_object" "ehrenfest_evaluations gibbs_object = 0"
  "wignerfunction gibbs_object = [5, 7]"
  by (simp_all add: gibbs_object_def oscillator_def engine.extend_def bloch.fields_def)

lemma init_gibbs_object: "init oscillator_parent kw_half = Inr (gibbs_object, [])"
  by (simp add: init_oscillator gibbs_object_def)

lemma two_steps: "nat 2 = Suc (Suc 0)"
  by simp

theorem get_gibbs_state_flat_then_steps_witness:
  "length (P gibbs_object) = length (X gibbs_object) \<and>
   num_beta_steps gibbs_object = 2 \<and>
   wignerfunction gibbs_object = [5, 7] \<and>
   get_gibbs_state id id gibbs_object =
     Inr ([1, exp (- 1) / 2 * exp (- 1) * (exp (- 1) / 2) * (exp (- 1) / 2) * exp (- 1)
              * (exp (- 1) / 2)],
          gibbs_object\<lparr>wignerfunction :=
            [1, exp (- 1) / 2 * exp (- 1) * (exp (- 1) / 2) * (exp (- 1) / 2) * exp (- 1)
              * (exp (- 1) / 2)]\<rparr>)"
proof -
  have l: "length (P gibbs_object) = length (X gibbs_object)"
    by (simp add: gibbs_object_fields)
  have s1: "single_step id id (gibbs_object\<lparr>wignerfunction := [1, 1]\<rparr>) =
      gibbs_object\<lparr>wignerfunction := [1, exp (- 1) / 2 * exp (- 1) * (exp (- 1) / 2)]\<rparr>"
    by (simp add: single_step_def Let_def get_exp_v_def get_exp_k_def gibbs_object_fields)
  have s2: "single_step id id
        (gibbs_object\<lparr>wignerfunction := [1, exp (- 1) / 2 * exp (- 1) * (exp (- 1) / 2)]\<rparr>) =
      gibbs_object\<lparr>wignerfunction :=
        [1, exp (- 1) / 2 * exp (- 1) * (exp (- 1) / 2) * (exp (- 1) / 2) * exp (- 1)
              * (exp (- 1) / 2)]\<rparr>"
    by (simp add: single_step_def Let_def get_exp_v_def get_exp_k_def gibbs_object_fields)
  have r: "replicate (length (X gibbs_object)) (1::real) = [1, 1]"
    by (simp add: gibbs_object_fields)
  have g: "get_gibbs_state id id gibbs_object =
     Inr ([1, exp (- 1) / 2 * exp (- 1) * (exp (- 1) / 2) * (exp (- 1) / 2) * exp (- 1)
              * (exp (- 1) / 2)],
          gibbs_object\<lparr>wignerfunction :=
            [1, exp (- 1) / 2 * exp (- 1) * (exp (- 1) / 2) * (exp (- 1) / 2) * exp (- 1)
              * (exp (- 1) / 2)]\<rparr>)"
    unfolding get_gibbs_state_flat_then_steps[OF l] gibbs_object_fields(3) two_steps r
    by (simp only: funpow.simps o_def id_apply s1 s2) simp
  show ?thesis
    by (rule conjI[OF l conjI[OF gibbs_object_fields(3) conjI[OF gibbs_object_fields(8) g]]])
qed

lemma get_gibbs_state_flag:
  assumes "\<not> isEhrenfest self" and "get_gibbs_state to_p to_x self = Inr (W, final)"
  shows "\<not> isEhrenfest final \<and> ehrenfest_evaluations final = ehrenfest_evaluations self"
proof -
  obtain w where f: "final = propagate to_p to_x (nat (num_beta_steps self))
      (self\<lparr>wignerfunction := w\<rparr>)"
    using assms(2)
    by (auto simp: get_gibbs_state_def set_wignerfunction_def bindE_def Let_def
        split: sum.splits)
  have "\<not> isEhrenfest (self\<lparr>wignerfunction := w\<rparr>)" using assms(1) by simp
  from propagate_flag[OF this, of to_p to_x "nat (num_beta_steps self)"] f
  show ?thesis by simp
qed

text \<open>
  Claim C8: the object that the constructor returns has the Ehrenfest flag cleared,
  whatever the parent constructor set. Nothing in \<open>get_gibbs_state\<close> sets it again: from
  any Wigner function and after any number of steps of the engine the flag is still
  cleared and the engine has computed no Ehrenfest expectation values, and the same holds
  for the object that \<open>get_gibbs_state\<close> leaves.
\<close>

theorem ehrenfest_disabled:
  assumes "init parent kw = Inr (self, out)"
    and "get_gibbs_state to_p to_x self = Inr (W, final)"
  shows "\<not> isEhrenfest self \<and>
     \<not> isEhrenfest (propagate to_p to_x m (self\<lparr>wignerfunction := w\<rparr>)) \<and>
     ehrenfest_evaluations (propagate to_p to_x m (self\<lparr>wignerfunction := w\<rparr>)) =
       ehrenfest_evaluations self \<and>
     \<not> isEhrenfest final \<and> ehrenfest_evaluations final = ehrenfest_evaluations self"
proof -
  have flag: "\<not> isEhrenfest self"
    using assms(1)
    by (auto simp: init_def finish_init_def bindE_def Let_def engine.extend_def
        bloch.fields_def split: sum.splits prod.splits)
  then have "\<not> isEhrenfest (self\<lparr>wignerfunction := w\<rparr>)" by simp
  from propagate_flag[OF this, of to_p to_x m] get_gibbs_state_flag[OF flag assms(2)] flag
  show ?thesis by simp
qed

theorem ehrenfest_disabled_witness:
  "isEhrenfest oscillator \<and>
   init oscillator_parent kw_half = Inr (gibbs_object, []) \<and>
   get_gibbs_state id id gibbs_object =
     Inr (wignerfunction (propagate id id 2 (gibbs_object\<lparr>wignerfunction := [1, 1]\<rparr>)),
          propagate id id 2 (gibbs_object\<lparr>wignerfunction := [1, 1]\<rparr>)) \<and>
   \<not> isEhrenfest gibbs_object \<and>
   \<not> isEhrenfest (propagate id id 2 (gibbs_object\<lparr>wignerfunction := [1, 1]\<rparr>)) \<and>
   ehrenfest_evaluations (propagate id id 2 (gibbs_object\<lparr>wignerfunction := [1, 1]\<rparr>)) = 0"
proof -
  have o: "isEhrenfest oscillator" by (simp add: oscillator_def)
  have l: "length (P gibbs_object) = length (X gibbs_object)"
    by (simp add: gibbs_object_fields)
  have g: "get_gibbs_state id id gibbs_object =
     Inr (wignerfunction (propagate id id 2 (gibbs_object\<lparr>wignerfunction := [1, 1]\<rparr>)),
          propagate id id 2 (gibbs_object\<lparr>wignerfunction := [1, 1]\<rparr>))"
    unfolding get_gibbs_state_eq[OF l] by (simp add: gibbs_object_fields)
  note r = ehrenfest_disabled[where parent = oscillator_parent and m = 2 and w = "[1, 1]",
      OF init_gibbs_object g]
  have r1: "\<not> isEhrenfest gibbs_object" using r by (rule conjunct1)
  have r2: "\<not> isEhrenfest (propagate id id 2 (gibbs_object\<lparr>wignerfunction := [1, 1]\<rparr>))"
    using r[THEN conjunct2] by (rule conjunct1)
  have r3: "ehrenfest_evaluations (propagate id id 2 (gibbs_object\<lparr>wignerfunction := [1, 1]\<rparr>)) = 0"
    using r[THEN conjunct2, THEN conjunct2, THEN conjunct1]
    by (simp add: gibbs_object_fields)
  show ?thesis
    by (rule conjI[OF o conjI[OF init_gibbs_object conjI[OF g conjI[OF r1 conjI[OF r2 r3]]]]])
qed

end
